theory Spec2Isabelle
  imports Main
begin

section \<open>Values exchanged with the language servers\<close>

text \<open>
  The wrapper handles whatever \<^verbatim>\<open>json.loads\<close> returns. Python's \<^verbatim>\<open>None\<close> and JSON
  \<^verbatim>\<open>null\<close> are the same object, so \<open>JNull\<close> stands for both: a function of the source
  that returns \<^verbatim>\<open>dict | None\<close> returns a \<open>json\<close> here. A dictionary is an association
  list read with \<open>map_of\<close>. Numbers are integers: no branch of the wrapper depends on a
  fractional number. A character is a code point below 256.
\<close>

datatype json =
    JNull
  | JBool bool
  | JNum int
  | JStr string
  | JArr "json list"
  | JObj "(string \<times> json) list"

text \<open>The exceptions the modelled code can raise, named after the Python classes.\<close>

datatype exn = KeyError | TypeError | AttributeError | ValueError | OSError | RuntimeError

text \<open>Truth value of a Python object in a condition (\<^verbatim>\<open>if x:\<close>).\<close>

fun truthy :: "json \<Rightarrow> bool" where
  "truthy JNull = False"
| "truthy (JBool b) = b"
| "truthy (JNum n) = (n \<noteq> 0)"
| "truthy (JStr s) = (s \<noteq> [])"
| "truthy (JArr xs) = (xs \<noteq> [])"
| "truthy (JObj kvs) = (kvs \<noteq> [])"

text \<open>\<^verbatim>\<open>d.get(key, default)\<close> on a dictionary; on anything else the attribute is missing.\<close>

fun dict_get :: "json \<Rightarrow> string \<Rightarrow> json \<Rightarrow> exn + json" where
  "dict_get (JObj kvs) k d = Inr (case map_of kvs k of None \<Rightarrow> d | Some v \<Rightarrow> v)"
| "dict_get _ k d = Inl AttributeError"

text \<open>\<^verbatim>\<open>x[key]\<close> with a string key.\<close>

fun subscript :: "json \<Rightarrow> string \<Rightarrow> exn + json" where
  "subscript (JObj kvs) k = (case map_of kvs k of None \<Rightarrow> Inl KeyError | Some v \<Rightarrow> Inr v)"
| "subscript _ k = Inl TypeError"

fun is_infix :: "string \<Rightarrow> string \<Rightarrow> bool" where
  "is_infix t [] = (t = [])"
| "is_infix t (c # cs) = (take (length t) (c # cs) = t \<or> is_infix t cs)"

text \<open>\<^verbatim>\<open>key in x\<close> with a string key: key membership for a dictionary, element membership
  for a list, substring test for a string, \<^verbatim>\<open>TypeError\<close> for the rest.\<close>

fun py_in :: "string \<Rightarrow> json \<Rightarrow> exn + bool" where
  "py_in k (JObj kvs) = Inr (map_of kvs k \<noteq> None)"
| "py_in k (JArr xs) = Inr (JStr k \<in> set xs)"
| "py_in k (JStr s) = Inr (is_infix k s)"
| "py_in k _ = Inl TypeError"

text \<open>\<^verbatim>\<open>d[key] = v\<close>.\<close>

fun dict_set :: "string \<Rightarrow> json \<Rightarrow> (string \<times> json) list \<Rightarrow> (string \<times> json) list" where
  "dict_set k v [] = [(k, v)]"
| "dict_set k v ((k', v') # kvs) = (if k' = k then (k, v) # kvs else (k', v') # dict_set k v kvs)"

fun set_item :: "json \<Rightarrow> string \<Rightarrow> json \<Rightarrow> exn + json" where
  "set_item (JObj kvs) k v = Inr (JObj (dict_set k v kvs))"
| "set_item _ k v = Inl TypeError"

section \<open>Python string operations\<close>

definition dquote :: char where "dquote = CHR 0x22"
definition backslash :: char where "backslash = CHR 0x5C"

text \<open>\<^verbatim>\<open>str.isspace\<close> on one character, which is also what \<^verbatim>\<open>\s\<close> matches.\<close>

definition isspace :: "char \<Rightarrow> bool" where
  "isspace c = (let n = of_char c :: nat in (9 \<le> n \<and> n \<le> 13) \<or> (28 \<le> n \<and> n \<le> 32) \<or> n = 133 \<or> n = 160)"

definition strip :: "string \<Rightarrow> string" where
  "strip s = rev (dropWhile isspace (rev (dropWhile isspace s)))"

definition lower_char :: "char \<Rightarrow> char" where
  "lower_char c = (let n = of_char c :: nat in
     if (65 \<le> n \<and> n \<le> 90) \<or> (192 \<le> n \<and> n \<le> 222 \<and> n \<noteq> 215) then char_of (n + 32) else c)"

definition lower :: "string \<Rightarrow> string" where
  "lower s = map lower_char s"

definition startswith :: "string \<Rightarrow> string \<Rightarrow> bool" where
  "startswith s t = (take (length t) s = t)"

definition endswith :: "string \<Rightarrow> string \<Rightarrow> bool" where
  "endswith s t = (length t \<le> length s \<and> drop (length s - length t) s = t)"

text \<open>\<^verbatim>\<open>s.find(c)\<close> for a single character: the first index, or None for -1.\<close>

fun find_char :: "char \<Rightarrow> string \<Rightarrow> nat option" where
  "find_char c [] = None"
| "find_char c (x # xs) = (if x = c then Some 0 else map_option Suc (find_char c xs))"

text \<open>\<^verbatim>\<open>s.replace(old, new)\<close> for a non-empty \<open>old\<close>: occurrences from the left, not overlapping.\<close>

fun replace :: "string \<Rightarrow> string \<Rightarrow> string \<Rightarrow> string" where
  "replace old new [] = []"
| "replace old new (c # cs) =
     (if old \<noteq> [] \<and> take (length old) (c # cs) = old
      then new @ replace old new (drop (length old) (c # cs))
      else c # replace old new cs)"

text \<open>\<^verbatim>\<open>s.split(c)\<close> and \<^verbatim>\<open>s.split(c, n)\<close> for a single separator character: empty
  parts are kept, and after \<open>n\<close> splits the rest is the last part.\<close>

fun split_max :: "char \<Rightarrow> nat option \<Rightarrow> string \<Rightarrow> string list" where
  "split_max c n [] = [[]]"
| "split_max c n (x # xs) =
     (if n = Some 0 then [x # xs]
      else if x = c then [] # split_max c (map_option (\<lambda>k. k - 1) n) xs
      else (case split_max c n xs of p # ps \<Rightarrow> (x # p) # ps | [] \<Rightarrow> [[x]]))"

section \<open>The regular expressions of the hover fallback\<close>

text \<open>
  The fragment of Python's \<^verbatim>\<open>re\<close> that the five patterns use, matched the way the
  backtracking engine does: alternatives from the left, repetitions greedy, the first
  way to match wins. A repetition is always over one character class in the source.
\<close>

datatype rx =
    Lit string
  | Cls "char \<Rightarrow> bool"
  | Seq rx rx
  | Alt rx rx
  | Opt rx
  | Star "char \<Rightarrow> bool"
  | Plus "char \<Rightarrow> bool"
  | Grp rx
  | Bol

type_synonym 'r cont = "nat \<Rightarrow> string \<Rightarrow> string option \<Rightarrow> 'r option"

fun rx_star :: "(char \<Rightarrow> bool) \<Rightarrow> nat \<Rightarrow> string \<Rightarrow> string option \<Rightarrow> 'r cont \<Rightarrow> 'r option" where
  "rx_star p i [] g k = k i [] g"
| "rx_star p i (x # xs) g k =
     (if p x then (case rx_star p (Suc i) xs g k of Some r \<Rightarrow> Some r | None \<Rightarrow> k i (x # xs) g)
      else k i (x # xs) g)"

text \<open>\<open>rx_match r i s g k\<close>: match \<open>r\<close> at offset \<open>i\<close>, where \<open>s\<close> is the text from \<open>i\<close> on
  and \<open>g\<close> is group 1 so far; \<open>k\<close> matches the rest of the pattern.\<close>

fun rx_match :: "rx \<Rightarrow> nat \<Rightarrow> string \<Rightarrow> string option \<Rightarrow> 'r cont \<Rightarrow> 'r option" where
  "rx_match (Lit t) i s g k =
     (if take (length t) s = t then k (i + length t) (drop (length t) s) g else None)"
| "rx_match (Cls p) i s g k =
     (case s of [] \<Rightarrow> None | x # xs \<Rightarrow> if p x then k (Suc i) xs g else None)"
| "rx_match (Seq a b) i s g k = rx_match a i s g (\<lambda>i' s' g'. rx_match b i' s' g' k)"
| "rx_match (Alt a b) i s g k =
     (case rx_match a i s g k of Some r \<Rightarrow> Some r | None \<Rightarrow> rx_match b i s g k)"
| "rx_match (Opt a) i s g k =
     (case rx_match a i s g k of Some r \<Rightarrow> Some r | None \<Rightarrow> k i s g)"
| "rx_match (Star p) i s g k = rx_star p i s g k"
| "rx_match (Plus p) i s g k =
     (case s of [] \<Rightarrow> None | x # xs \<Rightarrow> if p x then rx_star p (Suc i) xs g k else None)"
| "rx_match (Grp a) i s g k = rx_match a i s g (\<lambda>i' s' g'. k i' s' (Some (take (i' - i) s)))"
| "rx_match Bol i s g k = (if i = 0 then k i s g else None)"

text \<open>\<^verbatim>\<open>re.search(pattern, content)\<close>, reduced to what the caller reads: \<open>None\<close> when no
  offset matches, else \<^verbatim>\<open>match.group(1)\<close> of the leftmost match.\<close>

fun rx_search_from :: "rx \<Rightarrow> nat \<Rightarrow> string \<Rightarrow> string option option" where
  "rx_search_from r i [] = rx_match r i [] None (\<lambda>_ _ g. Some g)"
| "rx_search_from r i (x # xs) =
     (case rx_match r i (x # xs) None (\<lambda>_ _ g. Some g) of
        Some g \<Rightarrow> Some g
      | None \<Rightarrow> rx_search_from r (Suc i) xs)"

definition re_search :: "rx \<Rightarrow> string \<Rightarrow> string option option" where
  "re_search r s = rx_search_from r 0 s"

definition ident_start :: "char \<Rightarrow> bool" where
  "ident_start c = (let n = of_char c :: nat in (65 \<le> n \<and> n \<le> 90) \<or> (97 \<le> n \<and> n \<le> 122) \<or> n = 95)"

definition ident_char :: "char \<Rightarrow> bool" where
  "ident_char c = (let n = of_char c :: nat in ident_start c \<or> (48 \<le> n \<and> n \<le> 57))"

text \<open>The group shared by the five patterns: \<^verbatim>\<open>("[^"]+"|[A-Za-z_][A-Za-z0-9_]*)\<close>.\<close>

definition name_group :: rx where
  "name_group = Grp (Alt (Seq (Lit [dquote]) (Seq (Plus (\<lambda>c. c \<noteq> dquote)) (Lit [dquote])))
                         (Seq (Cls ident_start) (Star ident_char)))"

definition patterns :: "rx list" where
  "patterns =
    [ Seq (Opt (Seq (Lit ''local'') (Plus isspace))) (Seq (Lit ''procedure'') (Seq (Plus isspace) name_group)),
      Seq (Lit ''trigger'') (Seq (Plus isspace) name_group),
      Seq (Lit ''field'') (Seq (Star isspace) (Seq (Lit ''('') (Seq (Plus (\<lambda>c. c \<noteq> CHR '')''))
        (Seq (Lit '')'') (Seq (Plus isspace) name_group))))),
      Seq (Lit ''var'') (Seq (Plus isspace) (Seq name_group (Seq (Star isspace) (Lit '':'')))),
      Seq Bol (Seq (Star (\<lambda>c. \<not> ident_start c \<and> c \<noteq> dquote)) name_group) ]"

section \<open>Extracting a symbol name from a hover result\<close>

text \<open>The loop over the patterns: the first pattern that matches anywhere decides.\<close>

fun first_match :: "rx list \<Rightarrow> string \<Rightarrow> string option option" where
  "first_match [] content = None"
| "first_match (p # ps) content =
     (case re_search p content of Some g \<Rightarrow> Some g | None \<Rightarrow> first_match ps content)"

text \<open>The quotes of a quoted name are removed: \<^verbatim>\<open>name[1:-1]\<close>.\<close>

definition unquote_name :: "string \<Rightarrow> string" where
  "unquote_name name =
     (if startswith name [dquote] \<and> endswith name [dquote] then butlast (tl name) else name)"

definition extract_from_content :: "json \<Rightarrow> exn + string" where
  "extract_from_content content =
     (if \<not> truthy content then Inr []
      else case content of
        JStr c \<Rightarrow>
          (case first_match patterns c of
             None \<Rightarrow> Inr []
           | Some None \<Rightarrow> Inl AttributeError
           | Some (Some name) \<Rightarrow> Inr (unquote_name name))
      | _ \<Rightarrow> Inl TypeError)"

definition extract_symbol_from_hover :: "json \<Rightarrow> exn + string" where
  "extract_symbol_from_hover hover_result =
     (case dict_get hover_result ''contents'' (JObj []) of
        Inl e \<Rightarrow> Inl e
      | Inr (JObj kvs) \<Rightarrow>
          extract_from_content (case map_of kvs ''value'' of None \<Rightarrow> JStr [] | Some v \<Rightarrow> v)
      | Inr (JStr c) \<Rightarrow> extract_from_content (JStr c)
      | Inr _ \<Rightarrow> Inr [])"

section \<open>Searching the document outline\<close>

definition clean_symbol_name :: "string \<Rightarrow> string" where
  "clean_symbol_name name =
     (case find_char (CHR ''('') name of
        Some idx \<Rightarrow> if idx > 0 then strip (take idx name) else name
      | None \<Rightarrow> name)"

text \<open>The test of one outline node against the wanted name.\<close>

definition name_matches :: "string \<Rightarrow> string \<Rightarrow> bool" where
  "name_matches name symbol_name =
     (lower name = lower symbol_name \<or> lower (clean_symbol_name name) = lower symbol_name)"

text \<open>What a matching node returns: its \<^verbatim>\<open>location\<close>, else its \<^verbatim>\<open>selectionRange\<close> with
  the file's URI, else its \<^verbatim>\<open>range\<close> with the file's URI; \<open>None\<close> when it has none of
  the three, and then the search goes on.\<close>

definition node_location :: "(string \<times> json) list \<Rightarrow> json \<Rightarrow> json option" where
  "node_location node file_uri =
     (case map_of node ''location'' of
        Some l \<Rightarrow> Some l
      | None \<Rightarrow>
          (case map_of node ''selectionRange'' of
             Some r \<Rightarrow> Some (JObj [(''uri'', file_uri), (''range'', r)])
           | None \<Rightarrow>
               (case map_of node ''range'' of
                  Some r \<Rightarrow> Some (JObj [(''uri'', file_uri), (''range'', r)])
                | None \<Rightarrow> None)))"

text \<open>\<^verbatim>\<open>for sym in symbols\<close> over something that is not a list: a dictionary yields its
  keys and a string its characters, on which \<^verbatim>\<open>sym.get\<close> fails; the rest cannot be
  iterated.\<close>

fun iterate_non_list :: "json \<Rightarrow> exn + json" where
  "iterate_non_list (JObj kvs) = (if kvs = [] then Inr JNull else Inl AttributeError)"
| "iterate_non_list (JStr s) = (if s = [] then Inr JNull else Inl AttributeError)"
| "iterate_non_list _ = Inl TypeError"

lemma size_map_of: "map_of kvs k = Some v \<Longrightarrow> size v < Suc (size_list (size_prod (\<lambda>_. 0) size) kvs)"
  by (induction kvs) (auto split: if_splits)

function find_symbol_list :: "json list \<Rightarrow> string \<Rightarrow> json \<Rightarrow> exn + json" where
  "find_symbol_list [] symbol_name file_uri = Inr JNull"
| "find_symbol_list (node # rest) symbol_name file_uri =
     (case node of
        JObj kvs \<Rightarrow>
          (case (case map_of kvs ''name'' of None \<Rightarrow> JStr [] | Some v \<Rightarrow> v) of
             JStr name \<Rightarrow>
               (case (if name_matches name symbol_name then node_location kvs file_uri else None) of
                  Some loc \<Rightarrow> Inr loc
                | None \<Rightarrow>
                    (let children = (case map_of kvs ''children'' of None \<Rightarrow> JArr [] | Some c \<Rightarrow> c)
                     in if truthy children
                        then (case (case children of
                                      JArr cs \<Rightarrow> find_symbol_list cs symbol_name file_uri
                                    | other \<Rightarrow> iterate_non_list other) of
                                Inl e \<Rightarrow> Inl e
                              | Inr result \<Rightarrow>
                                  if truthy result then Inr result
                                  else find_symbol_list rest symbol_name file_uri)
                        else find_symbol_list rest symbol_name file_uri))
           | _ \<Rightarrow> Inl AttributeError)
      | _ \<Rightarrow> Inl AttributeError)"
  by pat_completeness auto
termination
  by (relation "measure (\<lambda>(xs, _, _). size_list size xs)")
     (auto split: option.splits dest!: size_map_of)

definition find_symbol_location :: "json \<Rightarrow> string \<Rightarrow> json \<Rightarrow> exn + json" where
  "find_symbol_location symbols symbol_name file_uri =
     (case symbols of
        JArr xs \<Rightarrow> find_symbol_list xs symbol_name file_uri
      | other \<Rightarrow> iterate_non_list other)"

section \<open>Paths\<close>

text \<open>
  \<^verbatim>\<open>pathlib.Path\<close> as CPython 3.11 has it, in its two flavours. A path is its flavour, its
  anchor (the drive and the root, empty for a relative path) and the components below
  the anchor, without empty ones and without dots. The parent of a path without
  components is the path itself.
\<close>

datatype flavour = Posix | Windows

datatype path = Path (flavour: flavour) (anchor: string) (parts: "string list")

definition path_sep :: "flavour \<Rightarrow> char" where
  "path_sep fl = (case fl of Posix \<Rightarrow> CHR ''/'' | Windows \<Rightarrow> backslash)"

definition ascii_letter :: "char \<Rightarrow> bool" where
  "ascii_letter c = (let n = of_char c :: nat in (65 \<le> n \<and> n \<le> 90) \<or> (97 \<le> n \<and> n \<le> 122))"

text \<open>\<^verbatim>\<open>s.find(c, start)\<close> for a single character.\<close>

definition find_from :: "char \<Rightarrow> nat \<Rightarrow> string \<Rightarrow> nat option" where
  "find_from c start s = map_option (\<lambda>i. i + start) (find_char c (drop start s))"

text \<open>\<^verbatim>\<open>splitroot\<close> of the POSIX flavour: the root and the rest. Exactly two leading
  slashes are a root of their own, any other number of them is one slash.\<close>

definition splitroot_posix :: "string \<Rightarrow> string \<times> string" where
  "splitroot_posix part =
     (if startswith part ''/''
      then (let stripped_part = dropWhile (\<lambda>c. c = CHR ''/'') part
            in (if length part - length stripped_part = 2 then ''//'' else ''/'', stripped_part))
      else ([], part))"

text \<open>\<^verbatim>\<open>_split_extended_path\<close> of the Windows flavour: the prefix of an extended path (two
  backslashes, a question mark, a backslash, and \<^verbatim>\<open>UNC\<close> when that follows) and the rest.\<close>

definition ext_namespace_prefix :: string where
  "ext_namespace_prefix = [backslash, backslash, CHR ''?'', backslash]"

definition split_extended_path :: "string \<Rightarrow> string \<times> string" where
  "split_extended_path s =
     (if startswith s ext_namespace_prefix
      then (let prefix = take 4 s; s1 = drop 4 s
            in if startswith s1 (''UNC'' @ [backslash])
               then (prefix @ take 3 s1, backslash # drop 3 s1)
               else (prefix, s1))
      else ([], s))"

text \<open>Where the drive of a UNC path (two backslashes, machine, backslash, share) ends:
  \<open>None\<close> when the text is not a UNC path.\<close>

definition unc_drive_end :: "string \<Rightarrow> nat option" where
  "unc_drive_end part =
     (if take 1 (drop 1 part) = [backslash] \<and> take 1 part = [backslash]
         \<and> take 1 (drop 2 part) \<noteq> [backslash]
      then (case find_from backslash 2 part of
              None \<Rightarrow> None
            | Some index \<Rightarrow>
                (case find_from backslash (index + 1) part of
                   None \<Rightarrow> Some (length part)
                 | Some index2 \<Rightarrow> if index2 \<noteq> index + 1 then Some index2 else None))
      else None)"

text \<open>\<^verbatim>\<open>splitroot\<close> of the Windows flavour, on a text whose slashes are backslashes already:
  the drive, the root and the rest.\<close>

definition splitroot_windows :: "string \<Rightarrow> string \<times> string \<times> string" where
  "splitroot_windows part0 =
     (case (if take 1 (drop 1 part0) = [backslash] \<and> take 1 part0 = [backslash]
            then split_extended_path part0 else ([], part0)) of
        (prefix, part) \<Rightarrow>
          (case unc_drive_end part of
             Some index2 \<Rightarrow>
               (if prefix \<noteq> [] then prefix @ drop 1 (take index2 part) else take index2 part,
                [backslash], drop (index2 + 1) part)
           | None \<Rightarrow>
               (let has_drive = (take 1 (drop 1 part) = '':'' \<and> part \<noteq> [] \<and> ascii_letter (hd part));
                    drv = (if has_drive then take 2 part else []);
                    rest = (if has_drive then drop 2 part else part)
                in if take 1 rest = [backslash]
                   then (prefix @ drv, [backslash], dropWhile (\<lambda>c. c = backslash) rest)
                   else (prefix @ drv, [], rest))))"

text \<open>\<^verbatim>\<open>Path(s)\<close> of one string.\<close>

definition parse_path :: "flavour \<Rightarrow> string \<Rightarrow> path" where
  "parse_path fl s =
     (case fl of
        Posix \<Rightarrow>
          (case splitroot_posix s of
             (root, rel) \<Rightarrow>
               Path Posix root (filter (\<lambda>x. x \<noteq> [] \<and> x \<noteq> ''.'') (split_max (CHR ''/'') None rel)))
      | Windows \<Rightarrow>
          (case splitroot_windows (replace ''/'' [backslash] s) of
             (drv, root, rel) \<Rightarrow>
               Path Windows (drv @ root)
                 (filter (\<lambda>x. x \<noteq> [] \<and> x \<noteq> ''.'') (split_max backslash None rel))))"

text \<open>\<^verbatim>\<open>c.join(ps)\<close>.\<close>

fun join_parts :: "char \<Rightarrow> string list \<Rightarrow> string" where
  "join_parts c [] = []"
| "join_parts c [p] = p"
| "join_parts c (p # q # ps) = p @ c # join_parts c (q # ps)"

definition str_path :: "path \<Rightarrow> string" where
  "str_path p =
     (if anchor p = [] \<and> parts p = [] then ''.''
      else anchor p @ join_parts (path_sep (flavour p)) (parts p))"

definition parent :: "path \<Rightarrow> path" where
  "parent p = Path (flavour p) (anchor p) (butlast (parts p))"

definition path_name :: "path \<Rightarrow> string" where
  "path_name p = (if parts p = [] then [] else last (parts p))"

text \<open>\<^verbatim>\<open>p / "app.json"\<close>: joining with one plain file name.\<close>

definition joinpath :: "path \<Rightarrow> string \<Rightarrow> path" where
  "joinpath p n = Path (flavour p) (anchor p) (parts p @ [n])"

section \<open>The environment\<close>

text \<open>
  What the wrapper asks of the operating system and of the Python library is a
  parameter of the model: the platform name; \<^verbatim>\<open>os.name\<close>, which decides the flavour of
  the paths that \<^verbatim>\<open>Path\<close> makes; the file system, that is \<open>path_exists\<close> for \<^verbatim>\<open>Path.exists\<close>
  (\<open>Inl\<close> when it raises, as it does for an error of the operating system that does not
  mean absence: a name too long, a permission denied) and \<open>read_text\<close> (\<open>None\<close> when
  opening or decoding the file fails); \<^verbatim>\<open>Path.resolve\<close> (\<open>Inl\<close> when it raises, as it does
  for a loop of symbolic links); \<^verbatim>\<open>Path.as_uri\<close> (\<open>None\<close> when it raises \<^verbatim>\<open>ValueError\<close>, as it
  does for a relative path); \<^verbatim>\<open>urllib.parse.unquote\<close>; \<^verbatim>\<open>Path.glob\<close>; the process
  identifier; the directory of the script; and \<open>popen\<close>, the process that starting an
  executable gives (\<open>None\<close> when starting fails).
\<close>

text \<open>
  A child process, seen from the wrapper at the level of whole messages: the messages
  written to its standard input so far, how many more writes succeed before the pipe
  breaks (\<open>None\<close>: it never does), and what the coming reads from its standard output
  give, each with the time in milliseconds it takes to arrive. A read that gives no
  message (end of file, a frame without length, bytes that do not parse, a timeout) is
  \<open>JNull\<close>, and so is every read once the list is used up.
\<close>

record proc =
  written :: "json list"
  writable :: "nat option"
  readable :: "(nat \<times> json) list"
  running :: bool

record env =
  platform_system :: string
  os_name :: string
  path_exists :: "string \<Rightarrow> exn + bool"
  read_text :: "string \<Rightarrow> string option"
  resolve_path :: "string \<Rightarrow> exn + string"
  as_uri :: "string \<Rightarrow> string option"
  unquote :: "string \<Rightarrow> string"
  glob :: "string \<Rightarrow> string \<Rightarrow> string list"
  getpid :: int
  cwd :: string
  script_dir :: string
  popen :: "string \<Rightarrow> proc option"

text \<open>\<^verbatim>\<open>Path\<close> is \<^verbatim>\<open>WindowsPath\<close> when \<^verbatim>\<open>os.name\<close> is \<^verbatim>\<open>nt\<close>, and \<^verbatim>\<open>PosixPath\<close> otherwise.\<close>

definition path_flavour :: "env \<Rightarrow> flavour" where
  "path_flavour E = (if os_name E = ''nt'' then Windows else Posix)"

section \<open>Finding the project of a file\<close>

lemma butlast_same: "(butlast xs = xs) = (xs = [])"
  by (induction xs) auto

lemma parent_fixed: "(current \<noteq> parent current) = (parts current \<noteq> [])"
  by (cases current) (auto simp: parent_def butlast_same dest: sym)

function find_project_loop :: "env \<Rightarrow> path \<Rightarrow> exn + string option" where
  "find_project_loop E current =
     (if current \<noteq> parent current
      then (case path_exists E (str_path (joinpath current ''app.json'')) of
              Inl e \<Rightarrow> Inl e
            | Inr found \<Rightarrow>
                if found then Inr (Some (str_path current))
                else find_project_loop E (parent current))
      else Inr None)"
  by pat_completeness auto
termination
  by (relation "measure (\<lambda>(E, p). length (parts p))") (auto simp: parent_fixed, simp add: parent_def)

declare find_project_loop.simps [simp del]

definition find_project_for_file :: "env \<Rightarrow> string \<Rightarrow> exn + string option" where
  "find_project_for_file E file_path =
     find_project_loop E (parent (parse_path (path_flavour E) file_path))"

section \<open>The wrapper's state\<close>

text \<open>The fields of \<^verbatim>\<open>CallHierarchyServer\<close>.\<close>

record ch_server =
  ch_process :: "proc option"
  ch_request_id :: nat
  ch_initialized :: bool
  ch_root_uri :: "string option"

text \<open>The fields of \<^verbatim>\<open>ALLSPWrapper\<close> that the code reads, and the clock in milliseconds
  that \<^verbatim>\<open>time.time\<close> reads.\<close>

record state =
  process :: "proc option"
  request_id :: nat
  initialized :: bool
  root_path :: "string option"
  root_uri :: json
  workspace_root :: json
  opened_files :: "string set"
  initialized_projects :: "string set"
  call_hierarchy_server :: "ch_server option"
  clock :: nat

text \<open>A method of the wrapper: it returns or raises, and leaves a state either way.\<close>

type_synonym 'a comp = "state \<Rightarrow> (exn + 'a) \<times> state"

definition bnd :: "'a comp \<Rightarrow> ('a \<Rightarrow> 'b comp) \<Rightarrow> 'b comp" where
  "bnd m f s = (case m s of (Inl e, s') \<Rightarrow> (Inl e, s') | (Inr x, s') \<Rightarrow> f x s')"

definition lift :: "exn + 'a \<Rightarrow> 'a comp" where
  "lift r s = (r, s)"

section \<open>Talking to the AL language server\<close>

definition send_message :: "json \<Rightarrow> unit comp" where
  "send_message msg s =
     (case process s of
        None \<Rightarrow> (Inr (), s)
      | Some p \<Rightarrow>
          (case writable p of
             Some 0 \<Rightarrow> (Inl OSError, s)
           | w \<Rightarrow> (Inr (), s\<lparr>process := Some (p\<lparr>written := written p @ [msg],
                                                  writable := map_option (\<lambda>n. n - 1) w\<rparr>)\<rparr>)))"

definition read_message :: "state \<Rightarrow> json \<times> state" where
  "read_message s =
     (case process s of
        None \<Rightarrow> (JNull, s)
      | Some p \<Rightarrow>
          (case readable p of
             [] \<Rightarrow> (JNull, s)
           | (d, m) # rest \<Rightarrow> (m, s\<lparr>process := Some (p\<lparr>readable := rest\<rparr>), clock := clock s + d\<rparr>)))"

text \<open>\<^verbatim>\<open>response.get("id") == self.request_id\<close>: a boolean equals the integer it stands for.\<close>

fun id_equals :: "json \<Rightarrow> nat \<Rightarrow> bool" where
  "id_equals (JNum n) r = (n = int r)"
| "id_equals (JBool b) r = (r = (if b then 1 else 0))"
| "id_equals _ r = False"

definition pending :: "state \<Rightarrow> nat" where
  "pending s = (case process s of None \<Rightarrow> 0 | Some p \<Rightarrow> length (readable p))"

text \<open>The loop of \<^verbatim>\<open>send_request\<close> that waits for the response with the request's id. A
  notification read meanwhile is only logged.\<close>

function await_response :: "json comp" where
  "await_response s =
     (case read_message s of
        (response, s') \<Rightarrow>
          if response = JNull then (Inr JNull, s')
          else (case dict_get response ''id'' JNull of
                  Inl e \<Rightarrow> (Inl e, s')
                | Inr i \<Rightarrow> if id_equals i (request_id s') then (Inr response, s')
                           else await_response s'))"
  by pat_completeness auto
termination
  by (relation "measure pending")
     (auto simp: read_message_def pending_def split: option.splits list.splits)

declare await_response.simps [simp del]

definition send_request :: "json \<Rightarrow> json \<Rightarrow> json comp" where
  "send_request method params s =
     (let s1 = s\<lparr>request_id := request_id s + 1\<rparr>;
          request = JObj [(''jsonrpc'', JStr ''2.0''), (''id'', JNum (int (request_id s1))),
                          (''method'', method), (''params'', params)]
      in case send_message request s1 of
           (Inl e, s2) \<Rightarrow> (Inl e, s2)
         | (Inr _, s2) \<Rightarrow> await_response s2)"

definition send_notification :: "json \<Rightarrow> json \<Rightarrow> unit comp" where
  "send_notification method params =
     send_message (JObj [(''jsonrpc'', JStr ''2.0''), (''method'', method), (''params'', params)])"

section \<open>Opening files and projects\<close>

definition uri_to_path :: "env \<Rightarrow> string \<Rightarrow> string" where
  "uri_to_path E uri =
     (let file_path = unquote E (replace ''file://'' [] (replace ''file:///'' [] uri))
      in if platform_system E = ''Windows'' \<and> startswith file_path ''/'' then tl file_path
         else file_path)"

definition did_open_params :: "string \<Rightarrow> string \<Rightarrow> string \<Rightarrow> json" where
  "did_open_params uri language_id content =
     JObj [(''textDocument'', JObj [(''uri'', JStr uri), (''languageId'', JStr language_id),
                                    (''version'', JNum 1), (''text'', JStr content)])]"

definition ensure_file_opened :: "env \<Rightarrow> string \<Rightarrow> unit comp" where
  "ensure_file_opened E uri s =
     (if uri \<in> opened_files s then (Inr (), s)
      else case read_text E (uri_to_path E uri) of
             None \<Rightarrow> (Inr (), s)
           | Some content \<Rightarrow>
               (case send_notification (JStr ''textDocument/didOpen'') (did_open_params uri ''al'' content) s of
                  (Inl e, s') \<Rightarrow> (Inr (), s')
                | (Inr _, s') \<Rightarrow> (Inr (), s'\<lparr>opened_files := insert uri (opened_files s')\<rparr>)))"

text \<open>The settings sent with \<^verbatim>\<open>workspace/didChangeConfiguration\<close>.\<close>

definition configuration_params :: "string \<Rightarrow> json" where
  "configuration_params project_root =
     JObj [(''settings'', JObj
       [(''workspacePath'', JStr project_root),
        (''alResourceConfigurationSettings'', JObj
          [(''assemblyProbingPaths'', JArr [JStr ''./.netpackages'']),
           (''codeAnalyzers'', JArr []),
           (''enableCodeAnalysis'', JBool False),
           (''backgroundCodeAnalysis'', JStr ''Project''),
           (''packageCachePaths'', JArr [JStr ''./.alpackages'']),
           (''ruleSetPath'', JNull),
           (''enableCodeActions'', JBool True),
           (''incrementalBuild'', JBool False),
           (''outputAnalyzerStatistics'', JBool True),
           (''enableExternalRulesets'', JBool True)]),
        (''setActiveWorkspace'', JBool True),
        (''expectedProjectReferenceDefinitions'', JArr []),
        (''activeWorkspaceClosure'', JArr [JStr project_root])])]"

definition active_workspace_params :: "env \<Rightarrow> string \<Rightarrow> string \<Rightarrow> json" where
  "active_workspace_params E workspace_uri project_root =
     JObj [(''currentWorkspaceFolderPath'', JObj
             [(''uri'', JStr workspace_uri),
              (''name'', JStr (path_name (parse_path (path_flavour E) project_root))),
              (''index'', JNum 0)]),
           (''settings'', JObj [(''workspacePath'', JStr project_root),
                                (''setActiveWorkspace'', JBool True)])]"

text \<open>Opening the manifest of a project. The test that the manifest exists is outside the
  \<^verbatim>\<open>try\<close> block, so what it raises goes to the caller; everything after it that fails is
  caught.\<close>

definition open_manifest :: "env \<Rightarrow> string \<Rightarrow> unit comp" where
  "open_manifest E project_root s =
     (let app_json_path = str_path (joinpath (parse_path (path_flavour E) project_root) ''app.json'')
      in case path_exists E app_json_path of
           Inl e \<Rightarrow> (Inl e, s)
         | Inr there \<Rightarrow>
             if there
             then (case read_text E app_json_path of
                     None \<Rightarrow> (Inr (), s)
                   | Some content \<Rightarrow>
                       (case as_uri E app_json_path of
                          None \<Rightarrow> (Inr (), s)
                        | Some u \<Rightarrow> (Inr (), snd (send_notification (JStr ''textDocument/didOpen'')
                                                  (did_open_params u ''json'' content) s))))
             else (Inr (), s))"

text \<open>The request \<^verbatim>\<open>al/setActiveWorkspace\<close>: everything in it that fails is caught.\<close>

definition set_active_workspace :: "env \<Rightarrow> string \<Rightarrow> state \<Rightarrow> state" where
  "set_active_workspace E project_root s =
     (case resolve_path E project_root of
        Inl e \<Rightarrow> s
      | Inr resolved \<Rightarrow>
          (case as_uri E resolved of
             None \<Rightarrow> s
           | Some workspace_uri \<Rightarrow>
               snd (send_request (JStr ''al/setActiveWorkspace'')
                      (active_workspace_params E workspace_uri project_root) s)))"

definition ensure_project_initialized :: "env \<Rightarrow> string \<Rightarrow> string option comp" where
  "ensure_project_initialized E file_uri s =
     (case find_project_for_file E (uri_to_path E file_uri) of
        Inl e \<Rightarrow> (Inl e, s)
      | Inr None \<Rightarrow> (Inr None, s)
      | Inr (Some found) \<Rightarrow>
          if found = [] then (Inr None, s)
          else
            (case resolve_path E found of
               Inl e \<Rightarrow> (Inl e, s)
             | Inr project_root \<Rightarrow>
                 if project_root \<in> initialized_projects s then (Inr (Some project_root), s)
                 else (case send_notification (JStr ''workspace/didChangeConfiguration'')
                              (configuration_params project_root) s of
                         (Inl e, s1) \<Rightarrow> (Inl e, s1)
                       | (Inr _, s1) \<Rightarrow>
                           (case open_manifest E project_root s1 of
                              (Inl e, s2) \<Rightarrow> (Inl e, s2)
                            | (Inr _, s2) \<Rightarrow>
                                (let s3 = set_active_workspace E project_root s2
                                 in (Inr (Some project_root),
                                     s3\<lparr>initialized_projects :=
                                          insert project_root (initialized_projects s3)\<rparr>))))))"

section \<open>Waiting for the project to load\<close>

text \<open>The value that \<^verbatim>\<open>check_project_loaded\<close> returns is tested for truth by its caller; for
  an object result it is whatever the \<^verbatim>\<open>loaded\<close> field holds.\<close>

definition check_project_loaded :: "state \<Rightarrow> json \<times> state" where
  "check_project_loaded s =
     (case send_request (JStr ''al/hasProjectClosureLoadedRequest'') (JObj []) s of
        (Inl e, s') \<Rightarrow> (JBool True, s')
      | (Inr response, s') \<Rightarrow>
          (if truthy response \<and> py_in ''result'' response = Inr True
           then (case subscript response ''result'' of
                   Inr (JBool b) \<Rightarrow> (JBool b, s')
                 | Inr (JObj kvs) \<Rightarrow> ((case map_of kvs ''loaded'' of None \<Rightarrow> JBool False | Some v \<Rightarrow> v), s')
                 | Inr JNull \<Rightarrow> (JBool True, s')
                 | _ \<Rightarrow> (JBool False, s'))
           else (JBool False, s')))"

text \<open>The clock never runs backwards; this is what ends the polling loop below.\<close>

lemma clock_send_message: "clock (snd (send_message msg s)) = clock s"
  by (simp add: send_message_def split: option.splits nat.splits)

lemma clock_read_message: "clock s \<le> clock (snd (read_message s))"
  by (simp add: read_message_def split: option.splits list.splits)

lemma clock_await_response: "clock s \<le> clock (snd (await_response s))"
proof (induction s rule: await_response.induct)
  case (1 s)
  obtain response s' where r: "read_message s = (response, s')"
    by (cases "read_message s")
  have le: "clock s \<le> clock s'"
    using clock_read_message [of s] r by simp
  show ?case
  proof (cases "response = JNull")
    case True
    then show ?thesis using r le by (simp add: await_response.simps [of s])
  next
    case False
    show ?thesis
    proof (cases "dict_get response ''id'' JNull")
      case (Inl e)
      then show ?thesis using r le False by (simp add: await_response.simps [of s])
    next
      case (Inr i)
      show ?thesis
      proof (cases "id_equals i (request_id s')")
        case True
        then show ?thesis using r le False Inr by (simp add: await_response.simps [of s])
      next
        case no: False
        have "clock s' \<le> clock (snd (await_response s'))"
          using "1.IH" [OF r [symmetric] False Inr no] .
        then show ?thesis using r le False Inr no by (simp add: await_response.simps [of s])
      qed
    qed
  qed
qed

lemma clock_send_request: "clock s \<le> clock (snd (send_request method params s))"
proof -
  let ?s1 = "s\<lparr>request_id := request_id s + 1\<rparr>"
  let ?request = "JObj [(''jsonrpc'', JStr ''2.0''), (''id'', JNum (int (request_id ?s1))),
                        (''method'', method), (''params'', params)]"
  obtain r s2 where m: "send_message ?request ?s1 = (r, s2)"
    by (cases "send_message ?request ?s1")
  have c2: "clock s2 = clock s"
    using clock_send_message [of ?request ?s1] m by simp
  show ?thesis
  proof (cases r)
    case (Inl e)
    then show ?thesis using m c2 by (simp add: send_request_def Let_def)
  next
    case (Inr u)
    then show ?thesis
      using m c2 clock_await_response [of s2] by (simp add: send_request_def Let_def)
  qed
qed

lemma clock_check_project_loaded: "clock s \<le> clock (snd (check_project_loaded s))"
proof -
  obtain r s' where q: "send_request (JStr ''al/hasProjectClosureLoadedRequest'') (JObj []) s = (r, s')"
    by (cases "send_request (JStr ''al/hasProjectClosureLoadedRequest'') (JObj []) s")
  have "clock s \<le> clock s'"
    using clock_send_request [of s "JStr ''al/hasProjectClosureLoadedRequest''" "JObj []"] q by simp
  then show ?thesis
    using q by (simp add: check_project_loaded_def split: sum.splits json.splits)
qed

lemma clock_check_pair: "check_project_loaded s = (loaded, s') \<Longrightarrow> clock s \<le> clock s'"
  using clock_check_project_loaded [of s] by simp

text \<open>The polling loop of \<^verbatim>\<open>_wait_for_project_load\<close>: \<open>start\<close> is the clock at entry, the
  timeout is in milliseconds, and \<^verbatim>\<open>time.sleep(0.5)\<close> moves the clock by 500.\<close>

function wait_loop :: "nat \<Rightarrow> nat \<Rightarrow> state \<Rightarrow> bool \<times> state" where
  "wait_loop start timeout s =
     (if int (clock s) - int start < int timeout
      then (case check_project_loaded s of
              (loaded, s') \<Rightarrow>
                if truthy loaded then (True, s')
                else wait_loop start timeout (s'\<lparr>clock := clock s' + 500\<rparr>))
      else (False, s))"
  by pat_completeness auto
termination
proof (relation "measure (\<lambda>(start, timeout, s). nat (int start + int timeout - int (clock s)))", goal_cases)
  case 1
  show ?case by simp
next
  case 2
  then show ?case by (auto dest: clock_check_pair [OF sym])
qed

declare wait_loop.simps [simp del]

definition wait_for_project_load :: "nat \<Rightarrow> state \<Rightarrow> bool \<times> state" where
  "wait_for_project_load timeout s = wait_loop (clock s) (timeout * 1000) s"

section \<open>Go to definition\<close>

definition is_empty_definition_result :: "json \<Rightarrow> bool" where
  "is_empty_definition_result result = (result = JNull \<or> result = JArr [])"

text \<open>A response that is there and has a result field.\<close>

definition has_result :: "json \<Rightarrow> bool" where
  "has_result response = (truthy response \<and> py_in ''result'' response = Inr True)"

definition get_result :: "json \<Rightarrow> json" where
  "get_result response = (case dict_get response ''result'' JNull of Inr v \<Rightarrow> v | Inl e \<Rightarrow> JNull)"

text \<open>The fallback through hover and the document outline. Its body is one \<^verbatim>\<open>try\<close> block
  that turns every exception into \<^verbatim>\<open>None\<close>.\<close>

definition try_document_symbol_fallback :: "json \<Rightarrow> state \<Rightarrow> json \<times> state" where
  "try_document_symbol_fallback params s =
     (case subscript params ''textDocument'' of
        Inl e \<Rightarrow> (JNull, s)
      | Inr text_document \<Rightarrow>
     (case subscript params ''position'' of
        Inl e \<Rightarrow> (JNull, s)
      | Inr position \<Rightarrow>
     (case send_request (JStr ''textDocument/hover'')
             (JObj [(''textDocument'', text_document), (''position'', position)]) s of
        (Inl e, s1) \<Rightarrow> (JNull, s1)
      | (Inr hover_response, s1) \<Rightarrow>
          if \<not> has_result hover_response then (JNull, s1)
          else if \<not> truthy (get_result hover_response) then (JNull, s1)
          else
     (case extract_symbol_from_hover (get_result hover_response) of
        Inl e \<Rightarrow> (JNull, s1)
      | Inr symbol_name \<Rightarrow>
          if symbol_name = [] then (JNull, s1)
          else
     (case send_request (JStr ''textDocument/documentSymbol'')
             (JObj [(''textDocument'', text_document)]) s1 of
        (Inl e, s2) \<Rightarrow> (JNull, s2)
      | (Inr symbols_response, s2) \<Rightarrow>
          if \<not> has_result symbols_response then (JNull, s2)
          else if \<not> truthy (get_result symbols_response) then (JNull, s2)
          else
     (case subscript text_document ''uri'' of
        Inl e \<Rightarrow> (JNull, s2)
      | Inr uri \<Rightarrow>
     (case find_symbol_location (get_result symbols_response) symbol_name uri of
        Inl e \<Rightarrow> (JNull, s2)
      | Inr location \<Rightarrow> if truthy location then (location, s2) else (JNull, s2))))))))"

text \<open>\<^verbatim>\<open>params["textDocument"]["uri"]\<close>, which the handlers pass on to \<^verbatim>\<open>_uri_to_path\<close>: that
  one calls \<^verbatim>\<open>uri.replace\<close>, which only a string has.\<close>

definition document_uri :: "json \<Rightarrow> exn + string" where
  "document_uri params =
     (case subscript params ''textDocument'' of
        Inl e \<Rightarrow> Inl e
      | Inr text_document \<Rightarrow>
          (case subscript text_document ''uri'' of
             Inl e \<Rightarrow> Inl e
           | Inr (JStr uri) \<Rightarrow> Inr uri
           | Inr _ \<Rightarrow> Inl AttributeError))"

text \<open>\<^verbatim>\<open>self.send_request(method, params) or {}\<close>.\<close>

definition send_request_or_empty :: "json \<Rightarrow> json \<Rightarrow> json comp" where
  "send_request_or_empty method params s =
     (case send_request method params s of
        (Inl e, s') \<Rightarrow> (Inl e, s')
      | (Inr response, s') \<Rightarrow> (Inr (if truthy response then response else JObj []), s'))"

text \<open>The \<^verbatim>\<open>try\<close> block of \<^verbatim>\<open>handle_definition\<close>: \<open>Some\<close> is what it returns from inside,
  \<open>None\<close> means that the code goes on to the standard request after it.\<close>

definition try_al_definition :: "json \<Rightarrow> state \<Rightarrow> json option \<times> state" where
  "try_al_definition params s =
     (case subscript params ''textDocument'' of
        Inl e \<Rightarrow> (None, s)
      | Inr text_document \<Rightarrow>
     (case subscript params ''position'' of
        Inl e \<Rightarrow> (None, s)
      | Inr position \<Rightarrow>
     (case send_request (JStr ''al/gotodefinition'')
             (JObj [(''textDocumentPositionParams'',
                     JObj [(''textDocument'', text_document), (''position'', position)])]) s of
        (Inl e, s1) \<Rightarrow> (None, s1)
      | (Inr response, s1) \<Rightarrow>
          if has_result response
          then (if \<not> is_empty_definition_result (get_result response) then (Some response, s1)
                else (case try_document_symbol_fallback params s1 of
                        (fallback_location, s2) \<Rightarrow>
                          if truthy fallback_location
                          then (Some (JObj [(''jsonrpc'', JStr ''2.0''), (''result'', fallback_location)]), s2)
                          else (Some response, s2)))
          else (None, s1))))"

definition handle_definition :: "env \<Rightarrow> json \<Rightarrow> json comp" where
  "handle_definition E params =
     bnd (lift (document_uri params)) (\<lambda>uri.
     bnd (ensure_project_initialized E uri) (\<lambda>_.
     bnd (ensure_file_opened E uri) (\<lambda>_ s.
       case try_al_definition params s of
         (Some response, s') \<Rightarrow> (Inr response, s')
       | (None, s') \<Rightarrow> send_request_or_empty (JStr ''textDocument/definition'') params s')))"

section \<open>Hover, document symbols, references\<close>

definition handle_hover :: "env \<Rightarrow> json \<Rightarrow> json comp" where
  "handle_hover E params =
     bnd (lift (document_uri params)) (\<lambda>uri.
     bnd (ensure_project_initialized E uri) (\<lambda>_.
     bnd (ensure_file_opened E uri) (\<lambda>_.
       send_request_or_empty (JStr ''textDocument/hover'') params)))"

definition handle_document_symbol :: "env \<Rightarrow> json \<Rightarrow> json comp" where
  "handle_document_symbol E params =
     bnd (lift (document_uri params)) (\<lambda>uri.
     bnd (ensure_project_initialized E uri) (\<lambda>_.
     bnd (ensure_file_opened E uri) (\<lambda>_.
       send_request_or_empty (JStr ''textDocument/documentSymbol'') params)))"

definition handle_references :: "env \<Rightarrow> json \<Rightarrow> json comp" where
  "handle_references E params =
     bnd (lift (document_uri params)) (\<lambda>uri.
     bnd (ensure_project_initialized E uri) (\<lambda>_.
     bnd (ensure_file_opened E uri) (\<lambda>_.
       send_request_or_empty (JStr ''textDocument/references'') params)))"

section \<open>Workspace symbols\<close>

definition empty_query_error :: json where
  "empty_query_error =
     JObj [(''jsonrpc'', JStr ''2.0''),
           (''error'', JObj
              [(''code'', JNum (- 32602)),
               (''message'', JStr (''workspaceSymbol received empty query. This is a known Claude Code LSP tool bug - ''
                  @ ''the tool doesn't pass the 'query' parameter needed for symbol search. ''
                  @ ''WORKAROUND: Use 'documentSymbol' to list symbols in a specific file, ''
                  @ ''or use Grep to search for symbol names across the workspace.''))])]"

text \<open>The test that decides whether a query is taken for a file path.\<close>

definition looks_like_path :: "string \<Rightarrow> bool" where
  "looks_like_path query = (backslash \<in> set query \<or> CHR ''/'' \<in> set query \<or> endswith query ''.al'')"

text \<open>The name part of an AL file name, \<^verbatim>\<open>ObjectType ObjectId Name.al\<close>.\<close>

definition extract_query :: "string \<Rightarrow> string" where
  "extract_query query =
     (let filename = last (split_max (CHR ''/'') None (replace [backslash] ''/'' query));
          filename = (if endswith filename ''.al'' then take (length filename - 3) filename else filename);
          parts = split_max (CHR '' '') (Some 2) filename
      in if length parts \<ge> 3 then parts ! 2 else filename)"

definition rewrite_query :: "string \<Rightarrow> string" where
  "rewrite_query query = (if looks_like_path query then extract_query query else query)"

text \<open>The two searches at the end of \<^verbatim>\<open>handle_workspace_symbol\<close>.\<close>

definition is_nonempty_list :: "json \<Rightarrow> bool" where
  "is_nonempty_list result = (case result of JArr xs \<Rightarrow> xs \<noteq> [] | _ \<Rightarrow> False)"

definition search_symbols :: "string \<Rightarrow> json comp" where
  "search_symbols query =
     bnd (send_request (JStr ''workspace/symbol'') (JObj [(''query'', JStr query)])) (\<lambda>response.
       if is_nonempty_list (get_result response) then lift (Inr response)
       else bnd (send_request (JStr ''al/symbolSearch'') (JObj [(''query'', JStr query)])) (\<lambda>al_response.
         if is_nonempty_list (get_result al_response) then lift (Inr al_response)
         else lift (Inr (JObj [(''jsonrpc'', JStr ''2.0''), (''result'', JArr [])]))))"

text \<open>The project of the wrapper's root is initialized through the URI of its manifest.\<close>

definition ensure_root_project :: "env \<Rightarrow> unit comp" where
  "ensure_root_project E s =
     (case root_path s of
        None \<Rightarrow> (Inr (), s)
      | Some r \<Rightarrow>
          if r = [] then (Inr (), s)
          else (case as_uri E (str_path (parse_path (path_flavour E) r)) of
                  None \<Rightarrow> (Inl ValueError, s)
                | Some u \<Rightarrow>
                    (case ensure_project_initialized E (u @ ''/app.json'') s of
                       (Inl e, s') \<Rightarrow> (Inl e, s')
                     | (Inr _, s') \<Rightarrow> (Inr (), s'))))"

definition handle_workspace_symbol :: "env \<Rightarrow> json \<Rightarrow> json comp" where
  "handle_workspace_symbol E params =
     bnd (lift (dict_get params ''query'' (JStr []))) (\<lambda>query.
       if \<not> truthy query then lift (Inr empty_query_error)
       else case query of
         JStr q \<Rightarrow>
           if strip q = [] then lift (Inr empty_query_error)
           else bnd (ensure_root_project E) (\<lambda>_ s.
                  search_symbols (rewrite_query q) (snd (wait_for_project_load 3 s)))
       | _ \<Rightarrow> lift (Inl AttributeError))"

section \<open>The call-hierarchy server\<close>

text \<open>The methods of \<^verbatim>\<open>CallHierarchyServer\<close>. Its \<^verbatim>\<open>send_message\<close> and \<^verbatim>\<open>read_message\<close> catch
  every exception, so a broken pipe is the answer \<open>False\<close> and a failed read is no
  message.\<close>

definition new_ch_server :: ch_server where
  "new_ch_server = \<lparr>ch_process = None, ch_request_id = 0, ch_initialized = False, ch_root_uri = None\<rparr>"

definition ch_is_alive :: "ch_server \<Rightarrow> bool" where
  "ch_is_alive c = (case ch_process c of None \<Rightarrow> False | Some p \<Rightarrow> running p)"

definition ch_send_message :: "json \<Rightarrow> ch_server \<Rightarrow> bool \<times> ch_server" where
  "ch_send_message msg c =
     (case ch_process c of
        None \<Rightarrow> (False, c)
      | Some p \<Rightarrow>
          if \<not> running p then (False, c)
          else (case writable p of
                  Some 0 \<Rightarrow> (False, c)
                | w \<Rightarrow> (True, c\<lparr>ch_process := Some (p\<lparr>written := written p @ [msg],
                                                         writable := map_option (\<lambda>n. n - 1) w\<rparr>)\<rparr>)))"

definition ch_read_message :: "ch_server \<Rightarrow> json \<times> ch_server" where
  "ch_read_message c =
     (case ch_process c of
        None \<Rightarrow> (JNull, c)
      | Some p \<Rightarrow>
          if \<not> running p then (JNull, c)
          else (case readable p of
                  [] \<Rightarrow> (JNull, c)
                | (d, m) # rest \<Rightarrow> (m, c\<lparr>ch_process := Some (p\<lparr>readable := rest\<rparr>)\<rparr>)))"

text \<open>\<^verbatim>\<open>params or {}\<close>.\<close>

definition or_empty :: "json \<Rightarrow> json" where
  "or_empty params = (if truthy params then params else JObj [])"

definition ch_send_request :: "json \<Rightarrow> json \<Rightarrow> ch_server \<Rightarrow> json \<times> ch_server" where
  "ch_send_request method params c =
     (if \<not> ch_is_alive c then (JNull, c)
      else
        (let c1 = c\<lparr>ch_request_id := ch_request_id c + 1\<rparr>;
             request = JObj [(''jsonrpc'', JStr ''2.0''), (''id'', JNum (int (ch_request_id c1))),
                             (''method'', method), (''params'', or_empty params)]
         in case ch_send_message request c1 of
              (False, c2) \<Rightarrow> (JNull, c2)
            | (True, c2) \<Rightarrow> ch_read_message c2))"

definition ch_send_notification :: "json \<Rightarrow> json \<Rightarrow> ch_server \<Rightarrow> ch_server" where
  "ch_send_notification method params c =
     snd (ch_send_message (JObj [(''jsonrpc'', JStr ''2.0''), (''method'', method),
                                 (''params'', or_empty params)]) c)"

text \<open>\<^verbatim>\<open>response and key in response\<close>, which raises for a number or for \<^verbatim>\<open>True\<close>.\<close>

definition and_has :: "json \<Rightarrow> string \<Rightarrow> exn + bool" where
  "and_has response k = (if truthy response then py_in k response else Inr False)"

definition ch_initialize :: "env \<Rightarrow> string \<Rightarrow> json \<Rightarrow> ch_server \<Rightarrow> (exn + bool) \<times> ch_server" where
  "ch_initialize E ws_uri workspace_folders c =
     (if ch_initialized c then (Inr True, c)
      else
        (case ch_send_request (JStr ''initialize'')
                (JObj [(''processId'', JNum (getpid E)), (''capabilities'', JObj []),
                       (''rootUri'', JStr ws_uri), (''workspaceFolders'', workspace_folders)])
                (c\<lparr>ch_root_uri := Some ws_uri\<rparr>) of
           (response, c1) \<Rightarrow>
             (case and_has response ''result'' of
                Inl e \<Rightarrow> (Inl e, c1)
              | Inr True \<Rightarrow>
                  (case subscript response ''result'' of
                     Inl e \<Rightarrow> (Inl e, c1)
                   | Inr result \<Rightarrow>
                  (case dict_get result ''capabilities'' (JObj []) of
                     Inl e \<Rightarrow> (Inl e, c1)
                   | Inr caps \<Rightarrow>
                  (case dict_get caps ''callHierarchyProvider'' JNull of
                     Inl e \<Rightarrow> (Inl e, c1)
                   | Inr provider \<Rightarrow>
                       if truthy provider
                       then (Inr True, (ch_send_notification (JStr ''initialized'') (JObj []) c1)
                                          \<lparr>ch_initialized := True\<rparr>)
                       else (Inr False, c1))))
              | Inr False \<Rightarrow>
                  (case and_has response ''error'' of
                     Inl e \<Rightarrow> (Inl e, c1)
                   | Inr True \<Rightarrow>
                       (case subscript response ''error'' of
                          Inl e \<Rightarrow> (Inl e, c1)
                        | Inr _ \<Rightarrow> (Inr False, c1))
                   | Inr False \<Rightarrow> (Inr False, c1)))))"

definition ch_request :: "json \<Rightarrow> json \<Rightarrow> ch_server \<Rightarrow> (exn + json) \<times> ch_server" where
  "ch_request method params c =
     (if \<not> ch_is_alive c then (Inr JNull, c)
      else
        (case ch_send_request method params c of
           (response, c1) \<Rightarrow>
             (case and_has response ''error'' of
                Inl e \<Rightarrow> (Inl e, c1)
              | Inr True \<Rightarrow>
                  (case subscript response ''error'' of
                     Inl e \<Rightarrow> (Inl e, c1)
                   | Inr _ \<Rightarrow> (Inr response, c1))
              | Inr False \<Rightarrow> (Inr response, c1))))"

definition ch_stop :: "ch_server \<Rightarrow> ch_server" where
  "ch_stop c =
     (if ch_process c \<noteq> None then c\<lparr>ch_process := None, ch_initialized := False\<rparr> else c)"

definition ch_shutdown :: "ch_server \<Rightarrow> ch_server" where
  "ch_shutdown c =
     ch_stop (if ch_process c \<noteq> None \<and> ch_is_alive c
              then ch_send_notification (JStr ''exit'') JNull
                     (snd (ch_send_request (JStr ''shutdown'') JNull c))
              else c)"

definition find_call_hierarchy_executable :: "env \<Rightarrow> exn + string option" where
  "find_call_hierarchy_executable E =
     (let bin = joinpath (parse_path (path_flavour E) (script_dir E)) ''bin'';
          system = platform_system E;
          exe_path =
            (if system = ''Windows'' then Some (joinpath (joinpath bin ''win32'') ''al-call-hierarchy.exe'')
             else if system = ''Linux'' then Some (joinpath (joinpath bin ''linux'') ''al-call-hierarchy'')
             else if system = ''Darwin'' then Some (joinpath (joinpath bin ''darwin'') ''al-call-hierarchy'')
             else None)
      in case exe_path of
           None \<Rightarrow> Inr None
         | Some p \<Rightarrow>
             (case path_exists E (str_path p) of
                Inl e \<Rightarrow> Inl e
              | Inr there \<Rightarrow> Inr (if there then Some (str_path p) else None)))"

text \<open>\<^verbatim>\<open>Path(x)\<close> of a value that need not be a string.\<close>

definition path_of_json :: "env \<Rightarrow> json \<Rightarrow> exn + path" where
  "path_of_json E v = (case v of JStr s \<Rightarrow> Inr (parse_path (path_flavour E) s) | _ \<Rightarrow> Inl TypeError)"

definition start_call_hierarchy_server :: "env \<Rightarrow> unit comp" where
  "start_call_hierarchy_server E s =
     (case find_call_hierarchy_executable E of
        Inl e \<Rightarrow> (Inl e, s)
      | Inr None \<Rightarrow> (Inr (), s)
      | Inr (Some exe) \<Rightarrow>
          (case popen E exe of
             None \<Rightarrow> (Inr (), s\<lparr>call_hierarchy_server := None\<rparr>)
           | Some p \<Rightarrow>
               (let c = new_ch_server\<lparr>ch_process := Some p\<rparr>;
                    s1 = s\<lparr>call_hierarchy_server := Some c\<rparr>;
                    workspace_path = (if truthy (workspace_root s) then workspace_root s
                                      else case root_path s of None \<Rightarrow> JNull | Some r \<Rightarrow> JStr r)
                in if \<not> truthy workspace_path then (Inr (), s1)
                   else (case path_of_json E workspace_path of
                           Inl e \<Rightarrow> (Inl e, s1)
                         | Inr wp \<Rightarrow>
                             (case as_uri E (str_path wp) of
                                None \<Rightarrow> (Inl ValueError, s1)
                              | Some workspace_uri \<Rightarrow>
                                  (case ch_initialize E workspace_uri
                                          (JArr [JObj [(''uri'', JStr workspace_uri),
                                                       (''name'', JStr (path_name wp))]]) c of
                                     (Inl e, c1) \<Rightarrow> (Inl e, s1\<lparr>call_hierarchy_server := Some c1\<rparr>)
                                   | (Inr True, c1) \<Rightarrow> (Inr (), s1\<lparr>call_hierarchy_server := Some c1\<rparr>)
                                   | (Inr False, c1) \<Rightarrow> (Inr (), s1\<lparr>call_hierarchy_server := None\<rparr>)))))))"

section \<open>The initialize request\<close>

text \<open>The loop of \<^verbatim>\<open>find_al_project\<close> over the depths \<open>depth, ..., 5\<close>, with \<open>n\<close> depths to go.\<close>

fun find_al_project_depths :: "env \<Rightarrow> string \<Rightarrow> nat \<Rightarrow> nat \<Rightarrow> string option" where
  "find_al_project_depths E start depth 0 = None"
| "find_al_project_depths E start depth (Suc n) =
     (case glob E start (join_parts (CHR ''/'') (replicate depth ''*'') @ ''/app.json'') of
        [] \<Rightarrow> find_al_project_depths E start (Suc depth) n
      | m # ms \<Rightarrow> Some (str_path (parent (parse_path (path_flavour E) m))))"

definition find_al_project :: "env \<Rightarrow> string \<Rightarrow> exn + string option" where
  "find_al_project E start_path =
     (let start = parse_path (path_flavour E) start_path
      in case path_exists E (str_path start) of
           Inl e \<Rightarrow> Inl e
         | Inr there \<Rightarrow>
             if \<not> there then Inr None
             else (case path_exists E (str_path (joinpath start ''app.json'')) of
                     Inl e \<Rightarrow> Inl e
                   | Inr manifest \<Rightarrow>
                       if manifest then Inr (Some (str_path start))
                       else Inr (find_al_project_depths E (str_path start) 1 5)))"

definition client_capabilities :: json where
  "client_capabilities =
     JObj
      [(''workspace'', JObj
         [(''applyEdit'', JBool True),
          (''workspaceEdit'', JObj
             [(''documentChanges'', JBool True),
              (''resourceOperations'', JArr [JStr ''create'', JStr ''rename'', JStr ''delete'']),
              (''failureHandling'', JStr ''textOnlyTransactional''),
              (''normalizesLineEndings'', JBool True)]),
          (''configuration'', JBool True),
          (''didChangeWatchedFiles'', JObj [(''dynamicRegistration'', JBool True)]),
          (''symbol'', JObj [(''dynamicRegistration'', JBool True),
                             (''symbolKind'', JObj [(''valueSet'', JArr (map JNum [1..26]))])]),
          (''executeCommand'', JObj [(''dynamicRegistration'', JBool True)]),
          (''didChangeConfiguration'', JObj [(''dynamicRegistration'', JBool True)]),
          (''workspaceFolders'', JBool True)]),
       (''textDocument'', JObj
         [(''synchronization'', JObj
             [(''dynamicRegistration'', JBool True), (''willSave'', JBool True),
              (''willSaveWaitUntil'', JBool True), (''didSave'', JBool True)]),
          (''completion'', JObj
             [(''dynamicRegistration'', JBool True), (''contextSupport'', JBool True),
              (''completionItem'', JObj
                 [(''snippetSupport'', JBool True), (''commitCharactersSupport'', JBool True),
                  (''documentationFormat'', JArr [JStr ''markdown'', JStr ''plaintext'']),
                  (''deprecatedSupport'', JBool True), (''preselectSupport'', JBool True)])]),
          (''hover'', JObj [(''dynamicRegistration'', JBool True),
                            (''contentFormat'', JArr [JStr ''markdown'', JStr ''plaintext''])]),
          (''definition'', JObj [(''dynamicRegistration'', JBool True), (''linkSupport'', JBool True)]),
          (''references'', JObj [(''dynamicRegistration'', JBool True)]),
          (''documentHighlight'', JObj [(''dynamicRegistration'', JBool True)]),
          (''documentSymbol'', JObj
             [(''dynamicRegistration'', JBool True),
              (''symbolKind'', JObj [(''valueSet'', JArr (map JNum [1..26]))]),
              (''hierarchicalDocumentSymbolSupport'', JBool True)]),
          (''codeAction'', JObj [(''dynamicRegistration'', JBool True)]),
          (''formatting'', JObj [(''dynamicRegistration'', JBool True)]),
          (''rangeFormatting'', JObj [(''dynamicRegistration'', JBool True)]),
          (''rename'', JObj [(''dynamicRegistration'', JBool True), (''prepareSupport'', JBool True)])]),
       (''window'', JObj
         [(''showMessage'', JObj [(''messageActionItem'', JObj [(''additionalPropertiesSupport'', JBool True)])]),
          (''showDocument'', JObj [(''support'', JBool True)]),
          (''workDoneProgress'', JBool True)])]"

definition build_initialize_params :: "env \<Rightarrow> state \<Rightarrow> exn + json" where
  "build_initialize_params E s =
     (case (case root_path s of
              None \<Rightarrow> Inr (cwd E)
            | Some r \<Rightarrow> if r = [] then Inr (cwd E) else resolve_path E r) of
        Inl e \<Rightarrow> Inl e
      | Inr root \<Rightarrow>
          (case as_uri E root of
             None \<Rightarrow> Inl ValueError
           | Some ruri \<Rightarrow>
               Inr (JObj [(''processId'', JNum (getpid E)),
                          (''rootPath'', JStr root),
                          (''rootUri'', JStr ruri),
                          (''capabilities'', client_capabilities),
                          (''trace'', JStr ''verbose''),
                          (''workspaceFolders'',
                             JArr [JObj [(''uri'', JStr ruri),
                                         (''name'', JStr (path_name (parse_path (path_flavour E) root)))]])])))"

definition post_initialize :: "env \<Rightarrow> unit comp" where
  "post_initialize E s =
     (case root_path s of
        None \<Rightarrow> (Inr (), s)
      | Some r \<Rightarrow>
          if r = [] then (Inr (), s)
          else (case send_notification (JStr ''workspace/didChangeConfiguration'') (configuration_params r) s of
                  (Inl e, s1) \<Rightarrow> (Inl e, s1)
                | (Inr _, s1) \<Rightarrow>
                    (case open_manifest E r s1 of
                       (Inl e, s2) \<Rightarrow> (Inl e, s2)
                     | (Inr _, s2) \<Rightarrow>
                         (let s3 = set_active_workspace E r s2;
                              s4 = snd (wait_for_project_load 5 s3)
                          in case resolve_path E r of
                               Inl e \<Rightarrow> (Inl e, s4)
                             | Inr normalized_path \<Rightarrow>
                                 start_call_hierarchy_server E
                                   (s4\<lparr>initialized_projects :=
                                        insert normalized_path (initialized_projects s4)\<rparr>)))))"

text \<open>The first lines of \<^verbatim>\<open>initialize\<close>: the workspace root is the \<^verbatim>\<open>rootPath\<close> when that is
  true, else the \<^verbatim>\<open>rootUri\<close> without its scheme.\<close>

definition workspace_root_of :: "json \<Rightarrow> exn + json" where
  "workspace_root_of params =
     (case dict_get params ''rootPath'' JNull of
        Inl e \<Rightarrow> Inl e
      | Inr rp \<Rightarrow>
          if truthy rp then Inr rp
          else (case dict_get params ''rootUri'' (JStr []) of
                  Inr (JStr u) \<Rightarrow> Inr (JStr (replace ''file://'' [] (replace ''file:///'' [] u)))
                | Inr _ \<Rightarrow> Inl AttributeError
                | Inl e \<Rightarrow> Inl e))"

text \<open>Choosing \<^verbatim>\<open>root_path\<close> and \<^verbatim>\<open>root_uri\<close>.\<close>

definition choose_root :: "env \<Rightarrow> json \<Rightarrow> unit comp" where
  "choose_root E params s =
     (case workspace_root_of params of
        Inl e \<Rightarrow> (Inl e, s)
      | Inr wr \<Rightarrow>
          (let s1 = s\<lparr>workspace_root := wr\<rparr>
           in case (if truthy wr
                    then (case wr of JStr x \<Rightarrow> find_al_project E x | _ \<Rightarrow> Inl TypeError)
                    else Inr None) of
                Inl e \<Rightarrow> (Inl e, s1)
              | Inr al_project \<Rightarrow>
                  (let w = (case wr of JStr x \<Rightarrow> x | _ \<Rightarrow> []);
                       s2 = s1\<lparr>root_path := Some w,
                                 root_uri := (case dict_get params ''rootUri'' JNull of
                                                Inr v \<Rightarrow> v | Inl e \<Rightarrow> JNull)\<rparr>;
                       no_project =
                         (if \<not> truthy (root_uri s2) \<and> w \<noteq> []
                          then (case as_uri E (str_path (parse_path (path_flavour E) w)) of
                                  None \<Rightarrow> (Inl ValueError, s2)
                                | Some u \<Rightarrow> (Inr (), s2\<lparr>root_uri := JStr u\<rparr>))
                          else (Inr (), s2))
                   in case al_project of
                        None \<Rightarrow> no_project
                      | Some a \<Rightarrow>
                          if a = [] then no_project
                          else (case as_uri E (str_path (parse_path (path_flavour E) a)) of
                                  None \<Rightarrow> (Inl ValueError, s1\<lparr>root_path := Some a\<rparr>)
                                | Some u \<Rightarrow> (Inr (), s1\<lparr>root_path := Some a, root_uri := JStr u\<rparr>)))))"

definition initialize_request :: "env \<Rightarrow> json \<Rightarrow> json comp" where
  "initialize_request E params =
     bnd (choose_root E params) (\<lambda>_ s.
       case build_initialize_params E s of
         Inl e \<Rightarrow> (Inl e, s)
       | Inr al_params \<Rightarrow>
           (case send_request (JStr ''initialize'') al_params s of
              (Inl e, s1) \<Rightarrow> (Inl e, s1)
            | (Inr response, s1) \<Rightarrow>
                (case (if has_result response
                       then bnd (send_notification (JStr ''initialized'') (JObj [])) (\<lambda>_. post_initialize E)
                              (s1\<lparr>initialized := True\<rparr>)
                       else (Inr (), s1)) of
                   (Inl e, s2) \<Rightarrow> (Inl e, s2)
                 | (Inr _, s2) \<Rightarrow>
                     (Inr (if truthy response then response
                           else JObj [(''jsonrpc'', JStr ''2.0''),
                                      (''id'', (case dict_get params ''id'' (JNum 0) of
                                                  Inr v \<Rightarrow> v | Inl e \<Rightarrow> JNum 0)),
                                      (''result'', JObj [])]), s2))))"

section \<open>Routing a request\<close>

text \<open>\<^verbatim>\<open>if response: response["id"] = request_id\<close>, then \<^verbatim>\<open>return response\<close>.\<close>

definition with_id :: "json \<Rightarrow> json \<Rightarrow> exn + json" where
  "with_id response req_id = (if truthy response then set_item response ''id'' req_id else Inr response)"

definition answer :: "json \<Rightarrow> json comp \<Rightarrow> json comp" where
  "answer req_id handler = bnd handler (\<lambda>response. lift (with_id response req_id))"

definition call_hierarchy_methods :: "json list" where
  "call_hierarchy_methods =
     [JStr ''textDocument/prepareCallHierarchy'', JStr ''callHierarchy/incomingCalls'',
      JStr ''callHierarchy/outgoingCalls'']"

definition call_hierarchy_unavailable :: "json \<Rightarrow> json" where
  "call_hierarchy_unavailable req_id =
     JObj [(''jsonrpc'', JStr ''2.0''), (''id'', req_id),
           (''error'', JObj [(''code'', JNum (- 32601)),
                             (''message'', JStr ''Call hierarchy server not available'')])]"

definition no_result :: "json \<Rightarrow> json" where
  "no_result req_id = JObj [(''jsonrpc'', JStr ''2.0''), (''id'', req_id), (''result'', JNull)]"

definition route_call_hierarchy :: "json \<Rightarrow> json \<Rightarrow> json \<Rightarrow> json comp" where
  "route_call_hierarchy method params req_id s =
     (case call_hierarchy_server s of
        None \<Rightarrow> (Inr (call_hierarchy_unavailable req_id), s)
      | Some c \<Rightarrow>
          if ch_initialized c
          then (case ch_request method params c of
                  (Inl e, c1) \<Rightarrow> (Inl e, s\<lparr>call_hierarchy_server := Some c1\<rparr>)
                | (Inr response, c1) \<Rightarrow>
                    (if truthy response then set_item response ''id'' req_id
                     else Inr (no_result req_id),
                     s\<lparr>call_hierarchy_server := Some c1\<rparr>))
          else (Inr (call_hierarchy_unavailable req_id), s))"

definition pass_through :: "json \<Rightarrow> json \<Rightarrow> json \<Rightarrow> json comp" where
  "pass_through method params req_id s =
     (if req_id \<noteq> JNull
      then (case send_request method params s of
              (Inl e, s') \<Rightarrow> (Inl e, s')
            | (Inr response, s') \<Rightarrow>
                (case with_id response req_id of
                   Inl e \<Rightarrow> (Inl e, s')
                 | Inr r \<Rightarrow> (Inr (if truthy r then r else no_result req_id), s')))
      else (case send_notification method params s of
              (Inl e, s') \<Rightarrow> (Inl e, s')
            | (Inr _, s') \<Rightarrow> (Inr JNull, s')))"

text \<open>\<^verbatim>\<open>process_request\<close>; the answer \<open>JNull\<close> is \<^verbatim>\<open>None\<close>: nothing goes back to the client.\<close>

definition process_request :: "env \<Rightarrow> json \<Rightarrow> json comp" where
  "process_request E request =
     bnd (lift (dict_get request ''method'' (JStr []))) (\<lambda>method.
     bnd (lift (dict_get request ''params'' (JObj []))) (\<lambda>params.
     bnd (lift (dict_get request ''id'' JNull)) (\<lambda>req_id.
       if method = JStr ''initialize'' then answer req_id (initialize_request E params)
       else if method = JStr ''textDocument/definition'' then answer req_id (handle_definition E params)
       else if method = JStr ''textDocument/documentSymbol'' then answer req_id (handle_document_symbol E params)
       else if method = JStr ''textDocument/hover'' then answer req_id (handle_hover E params)
       else if method = JStr ''workspace/symbol'' then answer req_id (handle_workspace_symbol E params)
       else if method = JStr ''textDocument/references'' then answer req_id (handle_references E params)
       else if method = JStr ''initialized''
         then bnd (send_notification method params) (\<lambda>_. lift (Inr JNull))
       else if method \<in> set call_hierarchy_methods then route_call_hierarchy method params req_id
       else pass_through method params req_id)))"

section \<open>A sample session\<close>

text \<open>
  A concrete environment and a concrete state, on which the theorems below are run: a
  Linux machine without the call-hierarchy executable, and a wrapper that has started
  the AL language server, whose pipe never breaks and which has nothing to say.
\<close>

definition sample_env :: env where
  "sample_env =
     \<lparr>platform_system = ''Linux'',
      os_name = ''posix'',
      path_exists = (\<lambda>p. Inr (p = ''ws/app.json'')),
      read_text = (\<lambda>p. if p = ''ws/app.json'' then Some ''{}'' else None),
      resolve_path = (\<lambda>p. Inr (''/'' @ p)),
      as_uri = (\<lambda>p. if startswith p ''/'' then Some (''file://'' @ p) else None),
      unquote = (\<lambda>p. p),
      glob = (\<lambda>d p. []),
      getpid = 4242,
      cwd = ''/'',
      script_dir = ''/opt/wrapper'',
      popen = (\<lambda>exe. None)\<rparr>"

definition sample_proc :: "(nat \<times> json) list \<Rightarrow> proc" where
  "sample_proc msgs = \<lparr>written = [], writable = None, readable = msgs, running = True\<rparr>"

definition sample_state :: "(nat \<times> json) list \<Rightarrow> state" where
  "sample_state msgs =
     \<lparr>process = Some (sample_proc msgs),
      request_id = 0,
      initialized = True,
      root_path = None,
      root_uri = JNull,
      workspace_root = JNull,
      opened_files = {},
      initialized_projects = {},
      call_hierarchy_server = None,
      clock = 0\<rparr>"

section \<open>Rejected workspace-symbol queries\<close>

text \<open>
  Claim C2. A \<^verbatim>\<open>workspace/symbol\<close> request without a query, or whose query is empty or
  only whitespace, is answered with an error of code -32602 and a message for the user.
  The state is the one before the call: nothing was written to the AL language server
  or to the call-hierarchy server, and nothing was read from them.
\<close>

theorem empty_query_rejected:
  assumes "map_of kvs ''query'' = None \<or> (\<exists>q. map_of kvs ''query'' = Some (JStr q) \<and> strip q = [])"
  shows "\<exists>m. m \<noteq> [] \<and>
           handle_workspace_symbol E (JObj kvs) s =
             (Inr (JObj [(''jsonrpc'', JStr ''2.0''),
                         (''error'', JObj [(''code'', JNum (- 32602)), (''message'', JStr m)])]), s)"
proof -
  have "handle_workspace_symbol E (JObj kvs) s = (Inr empty_query_error, s)"
    using assms
    by (auto simp: handle_workspace_symbol_def bnd_def lift_def strip_def)
  then show ?thesis
    unfolding empty_query_error_def by (intro exI conjI) auto
qed

theorem empty_query_rejected_witness:
  "\<exists>m. m \<noteq> [] \<and>
     handle_workspace_symbol sample_env (JObj [(''query'', JStr ''  '')]) (sample_state []) =
       (Inr (JObj [(''jsonrpc'', JStr ''2.0''),
                   (''error'', JObj [(''code'', JNum (- 32602)), (''message'', JStr m)])]),
        sample_state [])"
proof -
  have "strip ''  '' = []"
    by (simp add: strip_def isspace_def)
  then have "map_of [(''query'', JStr ''  '')] ''query'' = None
      \<or> (\<exists>q. map_of [(''query'', JStr ''  '')] ''query'' = Some (JStr q) \<and> strip q = [])"
    by simp
  then show ?thesis
    by (rule empty_query_rejected)
qed

section \<open>Call hierarchy without its server\<close>

lemma call_hierarchy_routed:
  assumes "map_of req ''method'' = Some method"
    and "method \<in> set call_hierarchy_methods"
  shows "process_request E (JObj req) s =
           route_call_hierarchy method
             (case map_of req ''params'' of None \<Rightarrow> JObj [] | Some v \<Rightarrow> v)
             (case map_of req ''id'' of None \<Rightarrow> JNull | Some v \<Rightarrow> v) s"
proof -
  have "method = JStr ''textDocument/prepareCallHierarchy'' \<or> method = JStr ''callHierarchy/incomingCalls''
        \<or> method = JStr ''callHierarchy/outgoingCalls''"
    using assms(2) by (simp add: call_hierarchy_methods_def)
  then show ?thesis
    using assms(1)
    by (elim disjE) (simp_all add: process_request_def bnd_def lift_def call_hierarchy_methods_def)
qed

text \<open>How the server comes to be absent: when the executable is not found and there was
  no server, when the process does not start, and when the server does not announce
  the capability, \<^verbatim>\<open>_start_call_hierarchy_server\<close> leaves no server behind.\<close>

lemma no_executable_no_server:
  "find_call_hierarchy_executable E = Inr None \<Longrightarrow> call_hierarchy_server s = None \<Longrightarrow>
   call_hierarchy_server (snd (start_call_hierarchy_server E s)) = None"
  by (simp add: start_call_hierarchy_server_def)

lemma no_process_no_server:
  "find_call_hierarchy_executable E = Inr (Some exe) \<Longrightarrow> popen E exe = None \<Longrightarrow>
   call_hierarchy_server (snd (start_call_hierarchy_server E s)) = None"
  by (simp add: start_call_hierarchy_server_def)

lemma failed_negotiation_no_server:
  assumes "find_call_hierarchy_executable E = Inr (Some exe)"
    and "popen E exe = Some p"
    and "workspace_path = (if truthy (workspace_root s) then workspace_root s
                           else case root_path s of None \<Rightarrow> JNull | Some r \<Rightarrow> JStr r)"
    and "truthy workspace_path"
    and "path_of_json E workspace_path = Inr wp"
    and "as_uri E (str_path wp) = Some uri"
    and "ch_initialize E uri (JArr [JObj [(''uri'', JStr uri), (''name'', JStr (path_name wp))]])
           (new_ch_server\<lparr>ch_process := Some p\<rparr>) = (Inr False, c)"
  shows "call_hierarchy_server (snd (start_call_hierarchy_server E s)) = None"
  using assms by (simp add: start_call_hierarchy_server_def Let_def)

text \<open>
  Claim C8. While there is no call-hierarchy server, or one that is not initialized, a
  request \<^verbatim>\<open>textDocument/prepareCallHierarchy\<close>, \<^verbatim>\<open>callHierarchy/incomingCalls\<close> or
  \<^verbatim>\<open>callHierarchy/outgoingCalls\<close> is answered with an error of code -32601 that carries
  the identifier of the request. The state is the one before the call: the request was
  not forwarded to the AL language server.
\<close>

theorem call_hierarchy_unavailable_error:
  assumes "map_of req ''method'' = Some method"
    and "method \<in> set call_hierarchy_methods"
    and "case call_hierarchy_server s of None \<Rightarrow> True | Some c \<Rightarrow> \<not> ch_initialized c"
  shows "process_request E (JObj req) s =
           (Inr (JObj [(''jsonrpc'', JStr ''2.0''),
                       (''id'', (case map_of req ''id'' of None \<Rightarrow> JNull | Some i \<Rightarrow> i)),
                       (''error'', JObj [(''code'', JNum (- 32601)),
                                         (''message'', JStr ''Call hierarchy server not available'')])]), s)"
  using assms(3)
  by (simp add: call_hierarchy_routed [OF assms(1,2)] route_call_hierarchy_def
        call_hierarchy_unavailable_def split: option.splits)

theorem call_hierarchy_unavailable_error_witness:
  "process_request sample_env
     (JObj [(''jsonrpc'', JStr ''2.0''), (''id'', JNum 7),
            (''method'', JStr ''callHierarchy/incomingCalls''), (''params'', JObj [])])
     (snd (start_call_hierarchy_server sample_env (sample_state []))) =
   (Inr (JObj [(''jsonrpc'', JStr ''2.0''), (''id'', JNum 7),
               (''error'', JObj [(''code'', JNum (- 32601)),
                                 (''message'', JStr ''Call hierarchy server not available'')])]),
    snd (start_call_hierarchy_server sample_env (sample_state [])))"
proof -
  have exe: "find_call_hierarchy_executable sample_env = Inr None"
    by code_simp
  have none: "call_hierarchy_server (snd (start_call_hierarchy_server sample_env (sample_state []))) = None"
    by (rule no_executable_no_server [OF exe]) (simp add: sample_state_def)
  have m: "map_of [(''jsonrpc'', JStr ''2.0''), (''id'', JNum 7),
                   (''method'', JStr ''callHierarchy/incomingCalls''), (''params'', JObj [])] ''method''
           = Some (JStr ''callHierarchy/incomingCalls'')"
    by simp
  have i: "JStr ''callHierarchy/incomingCalls'' \<in> set call_hierarchy_methods"
    by (simp add: call_hierarchy_methods_def)
  show ?thesis
    using call_hierarchy_unavailable_error [OF m i, of "snd (start_call_hierarchy_server sample_env (sample_state []))" sample_env]
    by (simp add: none)
qed

section \<open>The readiness check\<close>

text \<open>What the claim says of the result field of the answer, \<open>None\<close> when there is no such
  field: a boolean as it is, of an object its \<^verbatim>\<open>loaded\<close> field or false, true for null,
  false for the rest.\<close>

definition loaded_of_result :: "json option \<Rightarrow> json" where
  "loaded_of_result r =
     (case r of
        None \<Rightarrow> JBool False
      | Some (JBool b) \<Rightarrow> JBool b
      | Some (JObj kvs) \<Rightarrow> (case map_of kvs ''loaded'' of None \<Rightarrow> JBool False | Some v \<Rightarrow> v)
      | Some JNull \<Rightarrow> JBool True
      | Some _ \<Rightarrow> JBool False)"

text \<open>
  Claim C9. \<^verbatim>\<open>check_project_loaded\<close> sends \<^verbatim>\<open>al/hasProjectClosureLoadedRequest\<close>. When the
  request raises, the project counts as loaded. When it returns a response, the answer
  is read off the result field as above; a response without that field, and no
  response at all, count as not loaded.
\<close>

theorem check_project_loaded_asymmetric:
  "check_project_loaded s =
     (case send_request (JStr ''al/hasProjectClosureLoadedRequest'') (JObj []) s of
        (Inl e, s') \<Rightarrow> (JBool True, s')
      | (Inr (JObj response), s') \<Rightarrow> (loaded_of_result (map_of response ''result''), s')
      | (Inr other, s') \<Rightarrow> (JBool False, s'))"
proof -
  obtain r s' where q: "send_request (JStr ''al/hasProjectClosureLoadedRequest'') (JObj []) s = (r, s')"
    by (cases "send_request (JStr ''al/hasProjectClosureLoadedRequest'') (JObj []) s")
  show ?thesis
  proof (cases r)
    case (Inl e)
    then show ?thesis using q by (simp add: check_project_loaded_def)
  next
    case (Inr v)
    show ?thesis
    proof (cases v)
      case (JObj kvs)
      then show ?thesis
        using q Inr
        by (cases "map_of kvs ''result''")
           (auto simp: check_project_loaded_def loaded_of_result_def split: json.splits)
    qed (use q Inr in \<open>simp_all add: check_project_loaded_def\<close>)
  qed
qed

text \<open>Both outcomes that the claim sets against each other occur: a broken pipe makes the
  request raise, and the check says loaded; an answer whose result is a number is of
  no known shape, and the check says not loaded.\<close>

lemma check_project_loaded_broken_pipe:
  "fst (check_project_loaded ((sample_state [])\<lparr>process := Some ((sample_proc [])\<lparr>writable := Some 0\<rparr>)\<rparr>))
     = JBool True"
  by (simp add: check_project_loaded_def send_request_def send_message_def sample_state_def
        sample_proc_def Let_def)

lemma check_project_loaded_number:
  "fst (check_project_loaded (sample_state [(0, JObj [(''id'', JNum 1), (''result'', JNum 1)])]))
     = JBool False"
  by (simp add: check_project_loaded_def send_request_def send_message_def sample_state_def
        sample_proc_def Let_def await_response.simps read_message_def)

section \<open>Quoted names in hover text\<close>

lemma first_match_empty: "first_match patterns [] = None"
  by (simp add: patterns_def re_search_def name_group_def)

lemma unquote_name_quoted: "unquote_name ([dquote] @ inner @ [dquote]) = inner"
  by (simp add: unquote_name_def startswith_def endswith_def butlast_append)

text \<open>
  Claim C10. When the first pattern that matches the hover text captures a name in
  double quotes, \<^verbatim>\<open>_extract_symbol_from_hover\<close> returns the name without the two quotes,
  whether the hover contents are a string or an object with the text in its
  \<^verbatim>\<open>value\<close> field.
\<close>

theorem quoted_name_is_unquoted:
  assumes "first_match patterns c = Some (Some ([dquote] @ inner @ [dquote]))"
    and "map_of h ''contents'' = Some (JStr c)
         \<or> (\<exists>v. map_of h ''contents'' = Some (JObj v) \<and> map_of v ''value'' = Some (JStr c))"
  shows "extract_symbol_from_hover (JObj h) = Inr inner"
proof -
  have "c \<noteq> []"
    using assms(1) first_match_empty by auto
  then have "extract_from_content (JStr c) = Inr inner"
    using assms(1) by (simp add: extract_from_content_def unquote_name_quoted del: append.simps)
  then show ?thesis
    using assms(2) by (auto simp: extract_symbol_from_hover_def)
qed

theorem quoted_name_is_unquoted_witness:
  "extract_symbol_from_hover
     (JObj [(''contents'', JObj [(''kind'', JStr ''markdown''),
                                 (''value'', JStr (''local procedure '' @ [dquote] @ ''My Proc'' @ [dquote] @ ''()''))])])
   = Inr ''My Proc''"
proof -
  have m: "first_match patterns (''local procedure '' @ [dquote] @ ''My Proc'' @ [dquote] @ ''()'')
           = Some (Some ([dquote] @ ''My Proc'' @ [dquote]))"
    by code_simp
  show ?thesis
    by (rule quoted_name_is_unquoted [OF m]) simp
qed

section \<open>Rewriting a file path into a query\<close>

text \<open>The rewriting as the specification words it: take the last path segment, strip the
  extension, split on the first two space characters, and take the third part if
  there is one.\<close>

definition last_segment :: "string \<Rightarrow> string" where
  "last_segment q = rev (takeWhile (\<lambda>c. c \<noteq> CHR ''/'' \<and> c \<noteq> backslash) (rev q))"

definition strip_extension :: "string \<Rightarrow> string" where
  "strip_extension f = (if endswith f ''.al'' then take (length f - 3) f else f)"

definition after_space :: "string \<Rightarrow> string option" where
  "after_space f = (if CHR '' '' \<in> set f then Some (tl (dropWhile (\<lambda>c. c \<noteq> CHR '' '') f)) else None)"

definition spec_rewrite :: "string \<Rightarrow> string" where
  "spec_rewrite q =
     (let f = strip_extension (last_segment q)
      in case Option.bind (after_space f) after_space of Some name \<Rightarrow> name | None \<Rightarrow> f)"

lemma replace_char: "replace [a] [b] q = map (\<lambda>c. if c = a then b else c) q"
  by (induction q) auto

lemma split_max_nonempty: "split_max c n s \<noteq> []"
  by (induction s arbitrary: n) (auto split: list.splits)

lemma split_all_absent: "c \<notin> set s \<Longrightarrow> split_max c None s = [s]"
  by (induction s) auto

lemma split_all_present: "c \<in> set s \<Longrightarrow> tl (split_max c None s) \<noteq> []"
  by (induction s) (auto simp: split_max_nonempty split: list.splits)

lemma takeWhile_snoc:
  "takeWhile P (xs @ [x]) = (if \<forall>y\<in>set xs. P y then xs @ (if P x then [x] else []) else takeWhile P xs)"
  by (induction xs) auto

lemma last_split_all: "last (split_max c None s) = rev (takeWhile (\<lambda>x. x \<noteq> c) (rev s))"
proof (induction s)
  case Nil
  show ?case by simp
next
  case (Cons x xs)
  obtain p ps where sp: "split_max c None xs = p # ps"
    using split_max_nonempty [of c None xs] by (cases "split_max c None xs") auto
  show ?case
  proof (cases "c \<in> set xs")
    case True
    then have "ps \<noteq> []"
      using split_all_present [of c xs] sp by simp
    then show ?thesis
      using Cons.IH sp True by (auto simp: takeWhile_snoc)
  next
    case False
    then have "split_max c None xs = [xs]"
      by (rule split_all_absent)
    then show ?thesis
      using False by (auto simp: takeWhile_snoc)
  qed
qed

lemma last_segment_split:
  "last (split_max (CHR ''/'') None (replace [backslash] ''/'' q)) = last_segment q"
proof -
  let ?f = "\<lambda>c. if c = backslash then CHR ''/'' else c"
  have "takeWhile (\<lambda>x. x \<noteq> CHR ''/'') (map ?f xs) = takeWhile (\<lambda>c. c \<noteq> CHR ''/'' \<and> c \<noteq> backslash) xs" for xs
    by (induction xs) (auto simp: backslash_def)
  then show ?thesis
    by (simp add: last_split_all replace_char last_segment_def rev_map)
qed

lemma split_bounded:
  "split_max c (Some (Suc n)) s =
     (if c \<in> set s then takeWhile (\<lambda>x. x \<noteq> c) s # split_max c (Some n) (tl (dropWhile (\<lambda>x. x \<noteq> c) s))
      else [s])"
  by (induction s) auto

lemma split_zero: "split_max c (Some 0) s = [s]"
  by (cases s) auto

lemma third_part:
  "(if length (split_max (CHR '' '') (Some 2) f) \<ge> 3 then split_max (CHR '' '') (Some 2) f ! 2 else f) =
   (case Option.bind (after_space f) after_space of Some name \<Rightarrow> name | None \<Rightarrow> f)"
proof -
  have two: "(2::nat) = Suc (Suc 0)" by simp
  show ?thesis
    unfolding two
    by (simp add: split_bounded split_zero after_space_def Let_def)
qed

lemma extract_query_spec: "extract_query q = spec_rewrite q"
proof -
  have "extract_query q =
          (if length (split_max (CHR '' '') (Some 2) (strip_extension (last_segment q))) \<ge> 3
           then split_max (CHR '' '') (Some 2) (strip_extension (last_segment q)) ! 2
           else strip_extension (last_segment q))"
    by (simp add: extract_query_def strip_extension_def Let_def last_segment_split)
  then show ?thesis
    by (simp only: third_part spec_rewrite_def Let_def)
qed

text \<open>What the wrapper has written to the AL language server so far, and the requests
  that it writes for a symbol search.\<close>

definition sent :: "state \<Rightarrow> json list" where
  "sent s = (case process s of None \<Rightarrow> [] | Some p \<Rightarrow> written p)"

definition request_message :: "nat \<Rightarrow> json \<Rightarrow> json \<Rightarrow> json" where
  "request_message n method params =
     JObj [(''jsonrpc'', JStr ''2.0''), (''id'', JNum (int n)), (''method'', method), (''params'', params)]"

lemma await_response_preserves:
  assumes "\<And>t. P t \<Longrightarrow> P (snd (read_message t))" and "P s"
  shows "P (snd (await_response s))"
  using assms(2)
proof (induction s rule: await_response.induct)
  case (1 s)
  obtain response s' where r: "read_message s = (response, s')"
    by (cases "read_message s")
  have p: "P s'"
    using assms(1) [OF "1.prems"] r by simp
  show ?case
  proof (cases "response = JNull")
    case True
    then show ?thesis using r p by (simp add: await_response.simps [of s])
  next
    case False
    show ?thesis
    proof (cases "dict_get response ''id'' JNull")
      case (Inl e)
      then show ?thesis using r p False by (simp add: await_response.simps [of s])
    next
      case (Inr i)
      show ?thesis
      proof (cases "id_equals i (request_id s')")
        case True
        then show ?thesis using r p False Inr by (simp add: await_response.simps [of s])
      next
        case no: False
        have "P (snd (await_response s'))"
          using "1.IH" [OF r [symmetric] False Inr no p] .
        then show ?thesis using r False Inr no by (simp add: await_response.simps [of s])
      qed
    qed
  qed
qed

lemma sent_read_message: "sent (snd (read_message s)) = sent s"
  by (simp add: read_message_def sent_def split: option.splits list.splits)

lemma no_process_read_message: "(process (snd (read_message s)) = None) = (process s = None)"
  by (simp add: read_message_def split: option.splits list.splits)

lemma sent_await_response: "sent (snd (await_response s)) = sent s"
  using await_response_preserves [of "\<lambda>t. sent t = sent s" s] by (simp add: sent_read_message)

lemma no_process_await_response: "(process (snd (await_response s)) = None) = (process s = None)"
  using await_response_preserves [of "\<lambda>t. (process t = None) = (process s = None)" s]
  by (simp add: no_process_read_message)

lemma sent_send_message:
  "send_message msg s = (r, s') \<Longrightarrow>
   (process s' = None) = (process s = None) \<and>
   sent s' = (if r = Inr () \<and> process s \<noteq> None then sent s @ [msg] else sent s)"
  by (auto simp: send_message_def sent_def split: option.splits nat.splits)

lemma sent_send_request:
  assumes "send_request method params s = (r, s')"
  shows "(process s' = None) = (process s = None)"
    and "set (sent s) \<subseteq> set (sent s')"
    and "r = Inr v \<Longrightarrow> process s \<noteq> None \<Longrightarrow> request_message (request_id s + 1) method params \<in> set (sent s')"
proof -
  let ?s1 = "s\<lparr>request_id := request_id s + 1\<rparr>"
  let ?m = "request_message (request_id s + 1) method params"
  obtain r2 s2 where m: "send_message ?m ?s1 = (r2, s2)"
    by (cases "send_message ?m ?s1")
  have f: "(process s2 = None) = (process s = None)"
       "sent s2 = (if r2 = Inr () \<and> process s \<noteq> None then sent s @ [?m] else sent s)"
    using sent_send_message [OF m] by (simp_all add: sent_def)
  have s': "s' = (case r2 of Inl e \<Rightarrow> s2 | Inr u \<Rightarrow> snd (await_response s2))"
       and r: "r = (case r2 of Inl e \<Rightarrow> Inl e | Inr u \<Rightarrow> fst (await_response s2))"
    using assms m by (auto simp: send_request_def request_message_def Let_def split: sum.splits prod.splits)
  show "(process s' = None) = (process s = None)"
    using f(1) s' by (cases r2) (simp_all add: no_process_await_response)
  show "set (sent s) \<subseteq> set (sent s')"
    using f(2) s' by (cases r2) (auto simp: sent_await_response)
  show "request_message (request_id s + 1) method params \<in> set (sent s')"
    if "r = Inr v" "process s \<noteq> None"
    using that f(2) s' r by (cases r2) (auto simp: sent_await_response)
qed

lemma search_symbols_sends:
  assumes "search_symbols query s = (Inr r, s')" and "process s' \<noteq> None"
  shows "request_message (request_id s + 1) (JStr ''workspace/symbol'') (JObj [(''query'', JStr query)])
           \<in> set (sent s')"
proof -
  let ?ws = "send_request (JStr ''workspace/symbol'') (JObj [(''query'', JStr query)]) s"
  obtain r1 s1 where a: "?ws = (r1, s1)"
    by (cases ?ws)
  obtain response where r1: "r1 = Inr response"
    using assms(1) a by (cases r1) (auto simp: search_symbols_def bnd_def)
  show ?thesis
  proof (cases "is_nonempty_list (get_result response)")
    case True
    then have "s' = s1"
      using assms(1) a r1 by (simp add: search_symbols_def bnd_def lift_def)
    then show ?thesis
      using sent_send_request(1) [OF a] sent_send_request(3) [OF a r1] assms(2) by simp
  next
    case False
    let ?al = "send_request (JStr ''al/symbolSearch'') (JObj [(''query'', JStr query)]) s1"
    obtain r2 where b: "?al = (r2, s')"
      using assms(1) a r1 False
      by (cases ?al) (auto simp: search_symbols_def bnd_def lift_def split: sum.splits if_splits)
    have "process s1 \<noteq> None"
      using sent_send_request(1) [OF b] assms(2) by simp
    then have "process s \<noteq> None"
      using sent_send_request(1) [OF a] by simp
    then show ?thesis
      using sent_send_request(3) [OF a r1] sent_send_request(2) [OF b] by auto
  qed
qed

text \<open>
  Claim C6. A query that contains a slash or a backslash, or ends in \<^verbatim>\<open>.al\<close>, is rewritten
  as the specification words it; \<^verbatim>\<open>Table 6175301 CDO File.al\<close> becomes \<^verbatim>\<open>CDO File\<close>; and
  when \<^verbatim>\<open>handle_workspace_symbol\<close> returns, the \<^verbatim>\<open>workspace/symbol\<close> request that it wrote
  to the AL language server carries the rewritten query.
\<close>

theorem path_query_rewritten:
  "(looks_like_path q \<longrightarrow> rewrite_query q = spec_rewrite q)
   \<and> rewrite_query ''Table 6175301 CDO File.al'' = ''CDO File''
   \<and> (map_of kvs ''query'' = Some (JStr q) \<and> strip q \<noteq> []
        \<and> fst (handle_workspace_symbol E (JObj kvs) s) = Inr r
        \<and> process (snd (handle_workspace_symbol E (JObj kvs) s)) \<noteq> None
      \<longrightarrow> (\<exists>n. request_message n (JStr ''workspace/symbol'') (JObj [(''query'', JStr (rewrite_query q))])
                 \<in> set (sent (snd (handle_workspace_symbol E (JObj kvs) s)))))"
proof (intro conjI impI)
  assume "looks_like_path q"
  then show "rewrite_query q = spec_rewrite q"
    by (simp add: rewrite_query_def extract_query_spec)
next
  show "rewrite_query ''Table 6175301 CDO File.al'' = ''CDO File''"
    by code_simp
next
  assume a: "map_of kvs ''query'' = Some (JStr q) \<and> strip q \<noteq> []
        \<and> fst (handle_workspace_symbol E (JObj kvs) s) = Inr r
        \<and> process (snd (handle_workspace_symbol E (JObj kvs) s)) \<noteq> None"
  obtain s' where h: "handle_workspace_symbol E (JObj kvs) s = (Inr r, s')" and p: "process s' \<noteq> None"
    using a by (cases "handle_workspace_symbol E (JObj kvs) s") auto
  have q: "q \<noteq> []"
    using a by (auto simp: strip_def)
  obtain r1 s1 where e: "ensure_root_project E s = (r1, s1)"
    by (cases "ensure_root_project E s")
  have "search_symbols (rewrite_query q) (snd (wait_for_project_load 3 s1)) = (Inr r, s')"
    using h a q e by (cases r1) (auto simp: handle_workspace_symbol_def bnd_def lift_def)
  then show "\<exists>n. request_message n (JStr ''workspace/symbol'') (JObj [(''query'', JStr (rewrite_query q))])
                 \<in> set (sent (snd (handle_workspace_symbol E (JObj kvs) s)))"
    using search_symbols_sends p h by (metis snd_conv)
qed

theorem path_query_rewritten_witness:
  "rewrite_query ''Table 6175301 CDO File.al'' = spec_rewrite ''Table 6175301 CDO File.al''
   \<and> rewrite_query ''Table 6175301 CDO File.al'' = ''CDO File''
   \<and> (\<exists>n. request_message n (JStr ''workspace/symbol'') (JObj [(''query'', JStr (rewrite_query ''Table 6175301 CDO File.al''))])
             \<in> set (sent (snd (handle_workspace_symbol sample_env
                                  (JObj [(''query'', JStr ''Table 6175301 CDO File.al'')])
                                  (sample_state [(0, JObj [(''id'', JNum 1), (''result'', JBool True)])])))))"
proof -
  let ?q = "''Table 6175301 CDO File.al''"
  let ?h = "handle_workspace_symbol sample_env (JObj [(''query'', JStr ?q)])
              (sample_state [(0, JObj [(''id'', JNum 1), (''result'', JBool True)])])"
  have p: "looks_like_path ?q"
    by code_simp
  have m: "map_of [(''query'', JStr ?q)] ''query'' = Some (JStr ?q)"
    by simp
  have q: "strip ?q \<noteq> []"
    by code_simp
  have r: "fst ?h = Inr (JObj [(''jsonrpc'', JStr ''2.0''), (''result'', JArr [])])"
    by code_simp
  have a: "process (snd ?h) \<noteq> None"
    by code_simp
  show ?thesis
    using path_query_rewritten [where q = ?q and kvs = "[(''query'', JStr ?q)]" and E = sample_env
            and s = "sample_state [(0, JObj [(''id'', JNum 1), (''result'', JBool True)])]"
            and r = "JObj [(''jsonrpc'', JStr ''2.0''), (''result'', JArr [])]"]
          p m q r a
    by blast
qed

section \<open>The nearest project of a file\<close>

text \<open>
  The directories that the walk of \<^verbatim>\<open>find_project_for_file\<close> examines, as the specification
  words them: the ancestors of the file, nearest first. They are the ancestors of the
  path as it is written: the directory of the file, then what is left of it when its
  last components are removed one by one, a component \<^verbatim>\<open>..\<close> being a component like
  any other. The path without components (the root directory or the drive of an absolute
  path, the current directory of a relative one) ends the walk, and it is not among them.
\<close>

definition manifest_of :: "path \<Rightarrow> string" where
  "manifest_of d = str_path (joinpath d ''app.json'')"

definition ancestors_below_root :: "path \<Rightarrow> path list" where
  "ancestors_below_root p =
     map (\<lambda>n. Path (flavour p) (anchor p) (take n (parts p))) (rev [1..<Suc (length (parts p))])"

text \<open>
  What the search gives over these directories: those whose manifest is absent are
  passed, and the first other one decides. It is the project when its manifest exists,
  and when the test for the manifest raises, so does the search.
\<close>

definition absent :: "env \<Rightarrow> path \<Rightarrow> bool" where
  "absent E d = (path_exists E (manifest_of d) = Inr False)"

definition nearest_project :: "env \<Rightarrow> path list \<Rightarrow> exn + string option" where
  "nearest_project E ds =
     (case dropWhile (absent E) ds of
        [] \<Rightarrow> Inr None
      | d # rest \<Rightarrow>
          (case path_exists E (manifest_of d) of
             Inl e \<Rightarrow> Inl e
           | Inr found \<Rightarrow> Inr (Some (str_path d))))"

text \<open>Three file systems: one whose only file is the manifest in the root directory, one
  on Windows whose only file is the manifest of the project \<^verbatim>\<open>ws\<close> on drive \<^verbatim>\<open>C:\<close>, and
  one where the directory \<^verbatim>\<open>ws/src\<close> may not be searched.\<close>

definition root_manifest_env :: env where
  "root_manifest_env = sample_env\<lparr>path_exists := (\<lambda>p. Inr (p = ''/app.json''))\<rparr>"

definition windows_env :: env where
  "windows_env =
     sample_env\<lparr>platform_system := ''Windows'', os_name := ''nt'',
                path_exists := (\<lambda>p. Inr (p = ''C:'' @ backslash # ''ws'' @ backslash # ''app.json''
                                          \<or> p = ''C:'' @ backslash # ''app.json''))\<rparr>"

definition denied_env :: env where
  "denied_env =
     sample_env\<lparr>path_exists := (\<lambda>p. if p = ''ws/src/app.json'' then Inl OSError
                                     else Inr (p = ''ws/app.json''))\<rparr>"

lemma ancestors_below_root_empty: "ancestors_below_root (Path fl a []) = []"
  by (simp add: ancestors_below_root_def)

lemma ancestors_below_root_snoc:
  "ancestors_below_root (Path fl a (ps @ [x])) =
     Path fl a (ps @ [x]) # ancestors_below_root (Path fl a ps)"
  by (auto simp: ancestors_below_root_def)

lemma ancestors_below_root_unfold:
  "ancestors_below_root p = (if p = parent p then [] else p # ancestors_below_root (parent p))"
proof (cases p)
  case (Path fl a ps)
  show ?thesis
  proof (cases ps rule: rev_cases)
    case Nil
    then show ?thesis
      using Path by (simp add: ancestors_below_root_empty parent_def)
  next
    case (snoc qs x)
    then show ?thesis
      using Path by (simp add: ancestors_below_root_snoc parent_def)
  qed
qed

lemma nearest_project_Cons:
  "nearest_project E (d # ds) =
     (case path_exists E (manifest_of d) of
        Inl e \<Rightarrow> Inl e
      | Inr found \<Rightarrow> if found then Inr (Some (str_path d)) else nearest_project E ds)"
  by (auto simp: nearest_project_def absent_def split: sum.splits)

lemma find_project_loop_nearest:
  "find_project_loop E (Path fl a ps) = nearest_project E (ancestors_below_root (Path fl a ps))"
proof (induction ps rule: rev_induct)
  case Nil
  show ?case
    by (simp add: find_project_loop.simps [of E "Path fl a []"] parent_def
          ancestors_below_root_empty nearest_project_def)
next
  case (snoc x ps)
  have "Path fl a (ps @ [x]) \<noteq> parent (Path fl a (ps @ [x]))"
    by (simp add: parent_fixed)
  moreover have "parent (Path fl a (ps @ [x])) = Path fl a ps"
    by (simp add: parent_def)
  ultimately show ?case
    using snoc.IH
    by (simp add: find_project_loop.simps [of E "Path fl a (ps @ [x])"] ancestors_below_root_snoc
          nearest_project_Cons manifest_of_def split: sum.splits)
qed

text \<open>
  Claim C7, amended. \<^verbatim>\<open>find_project_for_file\<close> examines the ancestors of the file below the
  root of its path, nearest first, and returns the first of them that holds \<^verbatim>\<open>app.json\<close>;
  it returns \<^verbatim>\<open>None\<close> when the manifest is absent from all of them, and raises what the
  test for the manifest raises. The ancestors are the directory of the file, its parent,
  and so on as long as the path is not its own parent; the root of the path is not
  examined.
\<close>

theorem find_project_nearest_below_root:
  "find_project_for_file E f =
     nearest_project E (ancestors_below_root (parent (parse_path (path_flavour E) f)))
   \<and> ancestors_below_root p = (if p = parent p then [] else p # ancestors_below_root (parent p))
   \<and> Path (flavour p) (anchor p) [] \<notin> set (ancestors_below_root p)"
proof (intro conjI)
  show "find_project_for_file E f =
     nearest_project E (ancestors_below_root (parent (parse_path (path_flavour E) f)))"
    by (cases "parent (parse_path (path_flavour E) f)")
       (simp add: find_project_for_file_def find_project_loop_nearest)
  show "ancestors_below_root p = (if p = parent p then [] else p # ancestors_below_root (parent p))"
    by (rule ancestors_below_root_unfold)
  show "Path (flavour p) (anchor p) [] \<notin> set (ancestors_below_root p)"
    by (auto simp: ancestors_below_root_def)
qed

theorem find_project_nearest_below_root_witness:
  "find_project_for_file sample_env ''ws/src/Tab.al'' = Inr (Some ''ws'')
   \<and> find_project_for_file sample_env ''/ws/src/Tab.al'' = Inr None
   \<and> find_project_for_file windows_env ''C:/ws/src/Tab.al'' = Inr (Some (''C:'' @ backslash # ''ws''))
   \<and> find_project_for_file denied_env ''ws/src/Tab.al'' = Inl OSError"
proof -
  have "nearest_project sample_env
          (ancestors_below_root (parent (parse_path (path_flavour sample_env) ''ws/src/Tab.al'')))
        = Inr (Some ''ws'')"
    by code_simp
  moreover have "nearest_project sample_env
          (ancestors_below_root (parent (parse_path (path_flavour sample_env) ''/ws/src/Tab.al'')))
        = Inr None"
    by code_simp
  moreover have "nearest_project windows_env
          (ancestors_below_root (parent (parse_path (path_flavour windows_env) ''C:/ws/src/Tab.al'')))
        = Inr (Some (''C:'' @ backslash # ''ws''))"
    by code_simp
  moreover have "nearest_project denied_env
          (ancestors_below_root (parent (parse_path (path_flavour denied_env) ''ws/src/Tab.al'')))
        = Inl OSError"
    by code_simp
  ultimately show ?thesis
    using find_project_nearest_below_root [of sample_env "''ws/src/Tab.al''"]
      find_project_nearest_below_root [of sample_env "''/ws/src/Tab.al''"]
      find_project_nearest_below_root [of windows_env "''C:/ws/src/Tab.al''"]
      find_project_nearest_below_root [of denied_env "''ws/src/Tab.al''"]
    by simp
qed

text \<open>The manifest of the root directory is not found for a file of the root directory, and
  neither is the manifest of the root of a drive.\<close>

theorem root_manifest_not_found:
  "parent (parse_path (path_flavour root_manifest_env) ''/foo.al'') = Path Posix ''/'' []
   \<and> manifest_of (Path Posix ''/'' []) = ''/app.json''
   \<and> path_exists root_manifest_env ''/app.json'' = Inr True
   \<and> find_project_for_file root_manifest_env ''/foo.al'' = Inr None
   \<and> parent (parse_path (path_flavour windows_env) ''C:/foo.al'') = Path Windows (''C:'' @ [backslash]) []
   \<and> manifest_of (Path Windows (''C:'' @ [backslash]) []) = ''C:'' @ backslash # ''app.json''
   \<and> path_exists windows_env (''C:'' @ backslash # ''app.json'') = Inr True
   \<and> find_project_for_file windows_env ''C:/foo.al'' = Inr None"
  by code_simp

section \<open>The outline in document order\<close>

text \<open>
  The specification speaks of a depth-first search of the document outline. Here are
  the nodes of an outline in the order of such a search, each node before its children
  and the children before the following sibling, and what a node gives when it is the one
  looked for. An outline is well formed when every node is an object whose name, if it
  has one, is a string, and whose children, if they are not a list of nodes, count as
  none.
\<close>

function preorder :: "json list \<Rightarrow> (string \<times> json) list list" where
  "preorder [] = []"
| "preorder (node # rest) =
     (case node of
        JObj kvs \<Rightarrow>
          kvs # (case map_of kvs ''children'' of Some (JArr cs) \<Rightarrow> preorder cs | _ \<Rightarrow> []) @ preorder rest
      | _ \<Rightarrow> preorder rest)"
  by pat_completeness auto
termination
  by (relation "measure (size_list size)") (auto dest!: size_map_of)

function wf_outline :: "json list \<Rightarrow> bool" where
  "wf_outline [] = True"
| "wf_outline (node # rest) =
     (case node of
        JObj kvs \<Rightarrow>
          (case map_of kvs ''name'' of None \<Rightarrow> True | Some (JStr n) \<Rightarrow> True | Some _ \<Rightarrow> False)
          \<and> (case map_of kvs ''children'' of
                None \<Rightarrow> True
              | Some (JArr cs) \<Rightarrow> wf_outline cs
              | Some c \<Rightarrow> \<not> truthy c)
          \<and> wf_outline rest
      | _ \<Rightarrow> False)"
  by pat_completeness auto
termination
  by (relation "measure (size_list size)") (auto dest!: size_map_of)

text \<open>A node matches when its name, or its name without the parameter list, is the wanted
  name up to case; a node without a name has the empty name.\<close>

definition node_matches :: "string \<Rightarrow> (string \<times> json) list \<Rightarrow> bool" where
  "node_matches symbol_name kvs =
     (case map_of kvs ''name'' of
        Some (JStr n) \<Rightarrow> name_matches n symbol_name
      | Some _ \<Rightarrow> False
      | None \<Rightarrow> name_matches [] symbol_name)"

definition hit :: "string \<Rightarrow> json \<Rightarrow> (string \<times> json) list \<Rightarrow> json option" where
  "hit symbol_name file_uri kvs =
     (if node_matches symbol_name kvs then node_location kvs file_uri else None)"

definition hits :: "json list \<Rightarrow> string \<Rightarrow> json \<Rightarrow> json list" where
  "hits xs symbol_name file_uri = List.map_filter (hit symbol_name file_uri) (preorder xs)"

lemma hits_Nil: "hits [] w u = []"
  by (simp add: hits_def List.map_filter_def)

lemma hits_Cons:
  "hits (JObj kvs # rest) w u =
     (case hit w u kvs of None \<Rightarrow> [] | Some l \<Rightarrow> [l])
     @ (case map_of kvs ''children'' of Some (JArr cs) \<Rightarrow> hits cs w u | _ \<Rightarrow> [])
     @ hits rest w u"
  by (simp add: hits_def List.map_filter_def split: option.splits json.splits)

lemma find_symbol_list_first_hit:
  "wf_outline xs \<Longrightarrow> list_all truthy (hits xs w u) \<Longrightarrow>
   find_symbol_list xs w u = Inr (case hits xs w u of [] \<Rightarrow> JNull | l # ls \<Rightarrow> l)"
proof (induction xs rule: wf_outline.induct)
  case 1
  show ?case by (simp add: hits_Nil)
next
  case (2 node rest)
  then obtain kvs where node: "node = JObj kvs"
    by (cases node) auto
  have wf_rest: "wf_outline rest"
    using "2.prems"(1) node by simp
  have name: "map_of kvs ''name'' = None \<or> (\<exists>n. map_of kvs ''name'' = Some (JStr n))"
    using "2.prems"(1) node by (auto split: option.splits json.splits)
  have all: "list_all truthy (case hit w u kvs of None \<Rightarrow> [] | Some l \<Rightarrow> [l])"
            "list_all truthy (case map_of kvs ''children'' of Some (JArr cs) \<Rightarrow> hits cs w u | _ \<Rightarrow> [])"
            "list_all truthy (hits rest w u)"
    using "2.prems"(2) node by (simp_all add: hits_Cons)
  have rest: "find_symbol_list rest w u = Inr (case hits rest w u of [] \<Rightarrow> JNull | l # ls \<Rightarrow> l)"
    using "2.IH"(2) [OF node] wf_rest all(3) by simp
  show ?case
  proof (cases "hit w u kvs")
    case (Some l)
    then show ?thesis
      using name node
      by (auto simp: hit_def node_matches_def hits_Cons split: option.splits json.splits if_splits)
  next
    case None
    have skip: "(case (case map_of kvs ''name'' of None \<Rightarrow> JStr [] | Some v \<Rightarrow> v) of
                   JStr name \<Rightarrow> (if name_matches name w then node_location kvs u else None)
                 | _ \<Rightarrow> None) = None"
      using None name by (auto simp: hit_def node_matches_def split: option.splits json.splits if_splits)
    show ?thesis
    proof (cases "map_of kvs ''children''")
      case no: None
      then show ?thesis
        using None name node rest skip
        by (auto simp: hits_Cons split: option.splits json.splits if_splits)
    next
      case (Some c)
      show ?thesis
      proof (cases c)
        case (JArr cs)
        have wf_cs: "wf_outline cs"
          using "2.prems"(1) node Some JArr by simp
        have cs: "find_symbol_list cs w u = Inr (case hits cs w u of [] \<Rightarrow> JNull | l # ls \<Rightarrow> l)"
          using "2.IH"(1) [OF node Some JArr wf_cs] all(2) Some JArr by simp
        show ?thesis
        proof (cases "hits cs w u")
          case Nil
          then show ?thesis
            using None name node rest skip Some JArr cs
            by (auto simp: hits_Cons split: option.splits json.splits if_splits)
        next
          case (Cons l ls)
          then have "truthy l"
            using all(2) Some JArr by simp
          moreover have "cs \<noteq> []"
            using Cons by (auto simp: hits_Nil)
          ultimately show ?thesis
            using None name node skip Some JArr cs Cons
            by (auto simp: hits_Cons split: option.splits json.splits if_splits)
        qed
      next
        case JNull
        then show ?thesis
          using None name node rest skip Some
          by (auto simp: hits_Cons split: option.splits json.splits if_splits)
      next
        case (JBool b)
        then have "\<not> b"
          using "2.prems"(1) node Some by simp
        then show ?thesis
          using None name node rest skip Some JBool
          by (auto simp: hits_Cons split: option.splits json.splits if_splits)
      next
        case (JNum n)
        then have "n = 0"
          using "2.prems"(1) node Some by simp
        then show ?thesis
          using None name node rest skip Some JNum
          by (auto simp: hits_Cons split: option.splits json.splits if_splits)
      next
        case (JStr t)
        then have "t = []"
          using "2.prems"(1) node Some by simp
        then show ?thesis
          using None name node rest skip Some JStr
          by (auto simp: hits_Cons split: option.splits json.splits if_splits)
      next
        case (JObj ob)
        then have "ob = []"
          using "2.prems"(1) node Some by simp
        then show ?thesis
          using None name node rest skip Some JObj
          by (auto simp: hits_Cons split: option.splits json.splits if_splits)
      qed
    qed
  qed
qed

lemma no_match_no_hit:
  "list_all (\<lambda>kvs. \<not> node_matches w kvs) (preorder xs) \<Longrightarrow> hits xs w u = []"
  by (induction "preorder xs" arbitrary: xs)
     (auto simp: hits_def List.map_filter_def hit_def filter_empty_conv list_all_iff)

section \<open>A sample definition request\<close>

text \<open>
  A request for the definition of \<^verbatim>\<open>TranslateEmailWithAI\<close> in a file of the project \<^verbatim>\<open>ws\<close>,
  and what the AL language server answers: to \<^verbatim>\<open>al/setActiveWorkspace\<close>, then no definition
  to \<^verbatim>\<open>al/gotodefinition\<close>, then the hover text, then the outline of the document, in which
  the procedure is the second child of the codeunit.
\<close>

definition sample_range :: "int \<Rightarrow> int \<Rightarrow> int \<Rightarrow> int \<Rightarrow> json" where
  "sample_range l1 c1 l2 c2 =
     JObj [(''start'', JObj [(''line'', JNum l1), (''character'', JNum c1)]),
           (''end'', JObj [(''line'', JNum l2), (''character'', JNum c2)])]"

definition sample_procedure :: "(string \<times> json) list" where
  "sample_procedure =
     [(''name'', JStr ''TranslateEmailWithAI(Text)''), (''kind'', JNum 12),
      (''range'', sample_range 10 4 20 8), (''selectionRange'', sample_range 10 14 10 34)]"

definition sample_outline :: "json list" where
  "sample_outline =
     [JObj [(''name'', JStr ''Codeunit 50100 Mail''), (''kind'', JNum 5),
            (''range'', sample_range 0 0 40 1), (''selectionRange'', sample_range 0 9 0 25),
            (''children'',
               JArr [JObj [(''name'', JStr ''OnRun()''), (''kind'', JNum 12),
                           (''range'', sample_range 4 4 8 8), (''selectionRange'', sample_range 4 12 4 17)],
                     JObj sample_procedure])]]"

definition definition_params :: json where
  "definition_params =
     JObj [(''textDocument'', JObj [(''uri'', JStr ''file:///ws/src/Mail.al'')]),
           (''position'', JObj [(''line'', JNum 30), (''character'', JNum 12)])]"

definition definition_session :: "(nat \<times> json) list" where
  "definition_session =
     [(0, JObj [(''jsonrpc'', JStr ''2.0''), (''id'', JNum 1), (''result'', JNull)]),
      (0, JObj [(''jsonrpc'', JStr ''2.0''), (''id'', JNum 2), (''result'', JNull)]),
      (0, JObj [(''jsonrpc'', JStr ''2.0''), (''id'', JNum 3),
                (''result'', JObj [(''contents'',
                   JObj [(''kind'', JStr ''markdown''),
                         (''value'', JStr ''procedure TranslateEmailWithAI(Input: Text)'')])])]),
      (0, JObj [(''jsonrpc'', JStr ''2.0''), (''id'', JNum 4), (''result'', JArr sample_outline)])]"

section \<open>The definition found through hover and outline\<close>

text \<open>
  Claim C3. From the hover text \<^verbatim>\<open>procedure TranslateEmailWithAI(Input: Text)\<close>, given as a
  string or as the value of a markup object, the name \<^verbatim>\<open>TranslateEmailWithAI\<close> is extracted.
  The node name \<^verbatim>\<open>TranslateEmailWithAI(Text)\<close> without its parameter list is that name, so
  the node matches. The search of a well-formed outline returns what the first matching
  node in document order gives, provided that what the matching nodes give is not empty:
  the node's \<^verbatim>\<open>location\<close> when it has one, else its \<^verbatim>\<open>selectionRange\<close> with the URI of the
  document, else its \<^verbatim>\<open>range\<close> with that URI. In the sample session, where the primary
  result is empty, \<^verbatim>\<open>handle_definition\<close> answers with the selection range of the procedure
  and the URI of the requesting document.
\<close>

theorem definition_fallback_finds_symbol:
  "extract_symbol_from_hover
     (JObj [(''contents'', JStr ''procedure TranslateEmailWithAI(Input: Text)'')])
     = Inr ''TranslateEmailWithAI''
   \<and> extract_symbol_from_hover
       (JObj [(''contents'', JObj [(''kind'', JStr ''markdown''),
                                   (''value'', JStr ''procedure TranslateEmailWithAI(Input: Text)'')])])
     = Inr ''TranslateEmailWithAI''
   \<and> clean_symbol_name ''TranslateEmailWithAI(Text)'' = ''TranslateEmailWithAI''
   \<and> name_matches ''TranslateEmailWithAI(Text)'' ''TranslateEmailWithAI''
   \<and> (wf_outline xs \<and> list_all truthy (hits xs w u) \<longrightarrow>
        find_symbol_location (JArr xs) w u = Inr (case hits xs w u of [] \<Rightarrow> JNull | l # ls \<Rightarrow> l))
   \<and> (node_matches w kvs \<longrightarrow>
        (\<forall>l. map_of kvs ''location'' = Some l \<longrightarrow> hit w u kvs = Some l)
        \<and> (\<forall>r. map_of kvs ''location'' = None \<and> map_of kvs ''selectionRange'' = Some r \<longrightarrow>
               hit w u kvs = Some (JObj [(''uri'', u), (''range'', r)]))
        \<and> (\<forall>r. map_of kvs ''location'' = None \<and> map_of kvs ''selectionRange'' = None
                 \<and> map_of kvs ''range'' = Some r \<longrightarrow>
               hit w u kvs = Some (JObj [(''uri'', u), (''range'', r)])))
   \<and> fst (handle_definition sample_env definition_params (sample_state definition_session))
     = Inr (JObj [(''jsonrpc'', JStr ''2.0''),
                  (''result'', JObj [(''uri'', JStr ''file:///ws/src/Mail.al''),
                                     (''range'', sample_range 10 14 10 34)])])"
proof (intro conjI)
  show "extract_symbol_from_hover
     (JObj [(''contents'', JStr ''procedure TranslateEmailWithAI(Input: Text)'')])
     = Inr ''TranslateEmailWithAI''"
    by code_simp
  show "extract_symbol_from_hover
       (JObj [(''contents'', JObj [(''kind'', JStr ''markdown''),
                                   (''value'', JStr ''procedure TranslateEmailWithAI(Input: Text)'')])])
     = Inr ''TranslateEmailWithAI''"
    by code_simp
  show "clean_symbol_name ''TranslateEmailWithAI(Text)'' = ''TranslateEmailWithAI''"
    by code_simp
  show "name_matches ''TranslateEmailWithAI(Text)'' ''TranslateEmailWithAI''"
    by code_simp
  show "wf_outline xs \<and> list_all truthy (hits xs w u) \<longrightarrow>
        find_symbol_location (JArr xs) w u = Inr (case hits xs w u of [] \<Rightarrow> JNull | l # ls \<Rightarrow> l)"
    by (simp add: find_symbol_location_def find_symbol_list_first_hit)
  show "node_matches w kvs \<longrightarrow>
        (\<forall>l. map_of kvs ''location'' = Some l \<longrightarrow> hit w u kvs = Some l)
        \<and> (\<forall>r. map_of kvs ''location'' = None \<and> map_of kvs ''selectionRange'' = Some r \<longrightarrow>
               hit w u kvs = Some (JObj [(''uri'', u), (''range'', r)]))
        \<and> (\<forall>r. map_of kvs ''location'' = None \<and> map_of kvs ''selectionRange'' = None
                 \<and> map_of kvs ''range'' = Some r \<longrightarrow>
               hit w u kvs = Some (JObj [(''uri'', u), (''range'', r)]))"
    by (simp add: hit_def node_location_def)
  show "fst (handle_definition sample_env definition_params (sample_state definition_session))
     = Inr (JObj [(''jsonrpc'', JStr ''2.0''),
                  (''result'', JObj [(''uri'', JStr ''file:///ws/src/Mail.al''),
                                     (''range'', sample_range 10 14 10 34)])])"
    by code_simp
qed

theorem definition_fallback_finds_symbol_witness:
  "find_symbol_location (JArr sample_outline) ''TranslateEmailWithAI'' (JStr ''file:///ws/src/Mail.al'')
     = Inr (JObj [(''uri'', JStr ''file:///ws/src/Mail.al''), (''range'', sample_range 10 14 10 34)])
   \<and> hit ''TranslateEmailWithAI'' (JStr ''file:///ws/src/Mail.al'') sample_procedure
     = Some (JObj [(''uri'', JStr ''file:///ws/src/Mail.al''), (''range'', sample_range 10 14 10 34)])"
proof -
  let ?w = "''TranslateEmailWithAI''" and ?u = "JStr ''file:///ws/src/Mail.al''"
  have wf: "wf_outline sample_outline"
    by code_simp
  have h: "hits sample_outline ?w ?u = [JObj [(''uri'', ?u), (''range'', sample_range 10 14 10 34)]]"
    by code_simp
  have t: "list_all truthy (hits sample_outline ?w ?u)"
    by (simp add: h)
  have n: "map_of sample_procedure ''location'' = None"
          "map_of sample_procedure ''selectionRange'' = Some (sample_range 10 14 10 34)"
    by (simp_all add: sample_procedure_def)
  have m: "node_matches ?w sample_procedure"
    by code_simp
  show ?thesis
    using definition_fallback_finds_symbol
            [where xs = sample_outline and w = ?w and u = ?u and kvs = sample_procedure]
          wf t n m
    by (simp add: h)
qed

section \<open>The definition fallback that finds nothing\<close>

text \<open>The same request as in the sample above, in a session where the hover text names a
  procedure that the outline does not have.\<close>

definition no_match_session :: "(nat \<times> json) list" where
  "no_match_session =
     [(0, JObj [(''jsonrpc'', JStr ''2.0''), (''id'', JNum 1), (''result'', JNull)]),
      (0, JObj [(''jsonrpc'', JStr ''2.0''), (''id'', JNum 2), (''result'', JArr [])]),
      (0, JObj [(''jsonrpc'', JStr ''2.0''), (''id'', JNum 3),
                (''result'', JObj [(''contents'', JStr ''procedure SendEmail(Recipient: Text)'')])]),
      (0, JObj [(''jsonrpc'', JStr ''2.0''), (''id'', JNum 4), (''result'', JArr sample_outline)])]"

lemma ensure_file_opened_returns: "fst (ensure_file_opened E uri s) = Inr ()"
  by (simp add: ensure_file_opened_def split: option.splits prod.splits sum.splits)

text \<open>With an empty primary result, the answer of \<^verbatim>\<open>handle_definition\<close> is decided by the
  fallback alone.\<close>

lemma handle_definition_empty_primary:
  assumes "subscript params ''textDocument'' = Inr td"
    and "subscript td ''uri'' = Inr (JStr uri)"
    and "subscript params ''position'' = Inr pos"
    and "fst (ensure_project_initialized E uri s) = Inr r"
    and "sb = snd (ensure_file_opened E uri (snd (ensure_project_initialized E uri s)))"
    and "send_request (JStr ''al/gotodefinition'')
           (JObj [(''textDocumentPositionParams'', JObj [(''textDocument'', td), (''position'', pos)])]) sb
         = (Inr response, s1)"
    and "has_result response"
    and "is_empty_definition_result (get_result response)"
  shows "handle_definition E params s =
           (Inr (if truthy (fst (try_document_symbol_fallback params s1))
                 then JObj [(''jsonrpc'', JStr ''2.0''),
                            (''result'', fst (try_document_symbol_fallback params s1))]
                 else response),
            snd (try_document_symbol_fallback params s1))"
proof -
  obtain sa where a: "ensure_project_initialized E uri s = (Inr r, sa)"
    using assms(4) by (cases "ensure_project_initialized E uri s") auto
  obtain so where b: "ensure_file_opened E uri sa = (Inr (), so)"
    using ensure_file_opened_returns [of E uri sa] by (cases "ensure_file_opened E uri sa") auto
  have sb: "sb = so"
    using assms(5) a b by simp
  have d: "document_uri params = Inr uri"
    using assms(1,2) by (simp add: document_uri_def)
  have t: "try_al_definition params so =
             (Some (if truthy (fst (try_document_symbol_fallback params s1))
                    then JObj [(''jsonrpc'', JStr ''2.0''),
                               (''result'', fst (try_document_symbol_fallback params s1))]
                    else response),
              snd (try_document_symbol_fallback params s1))"
    using assms(1,3,6,7,8) sb
    by (cases "try_document_symbol_fallback params s1") (simp add: try_al_definition_def)
  show ?thesis
    by (simp add: handle_definition_def bnd_def lift_def d a b t)
qed

text \<open>
  Claim C4. Let the answer to \<^verbatim>\<open>al/gotodefinition\<close> have an empty result. When the hover
  request raises or has no result, when no name can be extracted from the hover text,
  when the request for the document symbols raises or has no result, and when no node of
  a well-formed outline matches the name, \<^verbatim>\<open>handle_definition\<close> returns that answer as it is;
  and so it does whenever the fallback finds nothing.
\<close>

theorem fallback_failure_keeps_empty_response:
  assumes "subscript params ''textDocument'' = Inr td"
    and "subscript td ''uri'' = Inr (JStr uri)"
    and "subscript params ''position'' = Inr pos"
    and "fst (ensure_project_initialized E uri s) = Inr r"
    and "sb = snd (ensure_file_opened E uri (snd (ensure_project_initialized E uri s)))"
    and "send_request (JStr ''al/gotodefinition'')
           (JObj [(''textDocumentPositionParams'', JObj [(''textDocument'', td), (''position'', pos)])]) sb
         = (Inr response, s1)"
    and "has_result response"
    and "is_empty_definition_result (get_result response)"
    and "h = send_request (JStr ''textDocument/hover'') (JObj [(''textDocument'', td), (''position'', pos)]) s1"
    and "d = send_request (JStr ''textDocument/documentSymbol'') (JObj [(''textDocument'', td)]) (snd h)"
  shows "(\<not> truthy (fst (try_document_symbol_fallback params s1)) \<longrightarrow>
            handle_definition E params s = (Inr response, snd (try_document_symbol_fallback params s1)))
       \<and> ((case fst h of Inl e \<Rightarrow> True | Inr hr \<Rightarrow> \<not> has_result hr \<or> \<not> truthy (get_result hr)) \<longrightarrow>
            handle_definition E params s = (Inr response, snd h))
       \<and> (fst h = Inr hr \<and> has_result hr \<and> truthy (get_result hr)
            \<and> (case extract_symbol_from_hover (get_result hr) of Inl e \<Rightarrow> True | Inr w \<Rightarrow> w = []) \<longrightarrow>
            handle_definition E params s = (Inr response, snd h))
       \<and> (fst h = Inr hr \<and> has_result hr \<and> truthy (get_result hr)
            \<and> extract_symbol_from_hover (get_result hr) = Inr w \<and> w \<noteq> []
            \<and> (case fst d of Inl e \<Rightarrow> True | Inr sr \<Rightarrow> \<not> has_result sr \<or> \<not> truthy (get_result sr)) \<longrightarrow>
            handle_definition E params s = (Inr response, snd d))
       \<and> (fst h = Inr hr \<and> has_result hr \<and> truthy (get_result hr)
            \<and> extract_symbol_from_hover (get_result hr) = Inr w \<and> w \<noteq> []
            \<and> fst d = Inr sr \<and> has_result sr \<and> get_result sr = JArr xs
            \<and> wf_outline xs \<and> list_all (\<lambda>kvs. \<not> node_matches w kvs) (preorder xs) \<longrightarrow>
            handle_definition E params s = (Inr response, snd d))"
proof -
  note H = handle_definition_empty_primary [OF assms(1-8)]
  let ?F = "try_document_symbol_fallback params s1"
  obtain rh sh where hh: "h = (rh, sh)"
    by (cases h)
  obtain rd sd where dd: "d = (rd, sd)"
    by (cases d)
  have h: "send_request (JStr ''textDocument/hover'') (JObj [(''textDocument'', td), (''position'', pos)]) s1
           = (rh, sh)"
    using assms(9) hh by simp
  have d: "send_request (JStr ''textDocument/documentSymbol'') (JObj [(''textDocument'', td)]) sh
           = (rd, sd)"
    using assms(10) hh dd by simp
  have F: "?F =
     (case fst h of
        Inl e \<Rightarrow> (JNull, snd h)
      | Inr hover_response \<Rightarrow>
          if \<not> has_result hover_response then (JNull, snd h)
          else if \<not> truthy (get_result hover_response) then (JNull, snd h)
          else
     (case extract_symbol_from_hover (get_result hover_response) of
        Inl e \<Rightarrow> (JNull, snd h)
      | Inr symbol_name \<Rightarrow>
          if symbol_name = [] then (JNull, snd h)
          else
     (case fst d of
        Inl e \<Rightarrow> (JNull, snd d)
      | Inr symbols_response \<Rightarrow>
          if \<not> has_result symbols_response then (JNull, snd d)
          else if \<not> truthy (get_result symbols_response) then (JNull, snd d)
          else
     (case find_symbol_location (get_result symbols_response) symbol_name (JStr uri) of
        Inl e \<Rightarrow> (JNull, snd d)
      | Inr location \<Rightarrow> if truthy location then (location, snd d) else (JNull, snd d)))))"
    by (simp add: try_document_symbol_fallback_def assms(1,2,3) h d hh dd split: sum.splits)
  have 1: "\<not> truthy (fst ?F) \<longrightarrow> handle_definition E params s = (Inr response, snd ?F)"
    by (simp add: H)
  have 2: "(case fst h of Inl e \<Rightarrow> True | Inr hr \<Rightarrow> \<not> has_result hr \<or> \<not> truthy (get_result hr)) \<longrightarrow>
            handle_definition E params s = (Inr response, snd h)"
    by (auto simp: H F split: sum.splits)
  have 3: "fst h = Inr hr \<and> has_result hr \<and> truthy (get_result hr)
            \<and> (case extract_symbol_from_hover (get_result hr) of Inl e \<Rightarrow> True | Inr w \<Rightarrow> w = []) \<longrightarrow>
            handle_definition E params s = (Inr response, snd h)"
    by (auto simp: H F split: sum.splits)
  have 4: "fst h = Inr hr \<and> has_result hr \<and> truthy (get_result hr)
            \<and> extract_symbol_from_hover (get_result hr) = Inr w \<and> w \<noteq> []
            \<and> (case fst d of Inl e \<Rightarrow> True | Inr sr \<Rightarrow> \<not> has_result sr \<or> \<not> truthy (get_result sr)) \<longrightarrow>
            handle_definition E params s = (Inr response, snd d)"
    by (auto simp: H F split: sum.splits)
  have 5: "fst h = Inr hr \<and> has_result hr \<and> truthy (get_result hr)
            \<and> extract_symbol_from_hover (get_result hr) = Inr w \<and> w \<noteq> []
            \<and> fst d = Inr sr \<and> has_result sr \<and> get_result sr = JArr xs
            \<and> wf_outline xs \<and> list_all (\<lambda>kvs. \<not> node_matches w kvs) (preorder xs) \<longrightarrow>
            handle_definition E params s = (Inr response, snd d)"
  proof (intro impI, elim conjE)
    assume a: "fst h = Inr hr" "has_result hr" "truthy (get_result hr)"
      "extract_symbol_from_hover (get_result hr) = Inr w" "w \<noteq> []"
      "fst d = Inr sr" "has_result sr" "get_result sr = JArr xs"
      "wf_outline xs" "list_all (\<lambda>kvs. \<not> node_matches w kvs) (preorder xs)"
    have n: "hits xs w (JStr uri) = []"
      using a(10) by (rule no_match_no_hit)
    have "find_symbol_location (JArr xs) w (JStr uri) = Inr JNull"
      using find_symbol_list_first_hit [OF a(9), of w "JStr uri"] n
      by (simp add: find_symbol_location_def)
    then have "?F = (JNull, snd d)"
      using a by (simp add: F)
    then show "handle_definition E params s = (Inr response, snd d)"
      by (simp add: H)
  qed
  show ?thesis
    using 1 2 3 4 5 by blast
qed

theorem fallback_failure_keeps_empty_response_witness:
  "fst (handle_definition sample_env definition_params (sample_state no_match_session))
     = Inr (JObj [(''jsonrpc'', JStr ''2.0''), (''id'', JNum 2), (''result'', JArr [])])"
proof -
  let ?s = "sample_state no_match_session"
  let ?uri = "''file:///ws/src/Mail.al''"
  let ?td = "JObj [(''uri'', JStr ?uri)]"
  let ?pos = "JObj [(''line'', JNum 30), (''character'', JNum 12)]"
  let ?sb = "snd (ensure_file_opened sample_env ?uri (snd (ensure_project_initialized sample_env ?uri ?s)))"
  let ?primary = "send_request (JStr ''al/gotodefinition'')
           (JObj [(''textDocumentPositionParams'', JObj [(''textDocument'', ?td), (''position'', ?pos)])]) ?sb"
  let ?response = "JObj [(''jsonrpc'', JStr ''2.0''), (''id'', JNum 2), (''result'', JArr [])]"
  let ?h = "send_request (JStr ''textDocument/hover'') (JObj [(''textDocument'', ?td), (''position'', ?pos)])
              (snd ?primary)"
  let ?d = "send_request (JStr ''textDocument/documentSymbol'') (JObj [(''textDocument'', ?td)]) (snd ?h)"
  let ?hr = "JObj [(''jsonrpc'', JStr ''2.0''), (''id'', JNum 3),
                   (''result'', JObj [(''contents'', JStr ''procedure SendEmail(Recipient: Text)'')])]"
  let ?sr = "JObj [(''jsonrpc'', JStr ''2.0''), (''id'', JNum 4), (''result'', JArr sample_outline)]"
  have a1: "subscript definition_params ''textDocument'' = Inr ?td"
    and a2: "subscript ?td ''uri'' = Inr (JStr ?uri)"
    and a3: "subscript definition_params ''position'' = Inr ?pos"
    by (simp_all add: definition_params_def)
  have a4: "fst (ensure_project_initialized sample_env ?uri ?s) = Inr (Some ''/ws'')"
    by code_simp
  have "fst ?primary = Inr ?response"
    by code_simp
  then have a6: "?primary = (Inr ?response, snd ?primary)"
    by (simp add: prod_eq_iff)
  have a7: "has_result ?response" and a8: "is_empty_definition_result (get_result ?response)"
    by code_simp+
  have h1: "fst ?h = Inr ?hr"
    by code_simp
  have h2: "has_result ?hr" and h3: "truthy (get_result ?hr)"
    and h4: "extract_symbol_from_hover (get_result ?hr) = Inr ''SendEmail''"
    by code_simp+
  have d1: "fst ?d = Inr ?sr"
    by code_simp
  have d2: "has_result ?sr" and d3: "get_result ?sr = JArr sample_outline"
    by code_simp+
  have o1: "wf_outline sample_outline"
    and o2: "list_all (\<lambda>kvs. \<not> node_matches ''SendEmail'' kvs) (preorder sample_outline)"
    by code_simp+
  show ?thesis
    using fallback_failure_keeps_empty_response
            [OF a1 a2 a3 a4 refl a6 a7 a8 refl refl,
             where hr = ?hr and w = "''SendEmail''" and sr = ?sr and xs = sample_outline]
          h1 h2 h3 h4 d1 d2 d3 o1 o2
    by simp
qed

end
